theory Spec2Isabelle
  imports Main "HOL-Library.Word"
begin

unbundle bit_operations_syntax

section \<open>Data model\<close>

text \<open>
  The file \<open>arch/arm/mm/mmap.c\<close> is the 32-bit ARM placement policy for new mappings.
  \<open>unsigned long\<close> is a 32-bit word there; all address arithmetic wraps modulo \<open>2 ^ 32\<close>.
\<close>

type_synonym ulong = "32 word"

text \<open>
  Everything the file reads from headers, from global variables and from the hardware:
  the page geometry (\<open>PAGE_SHIFT\<close>, \<open>SHMLBA\<close>), the limits of the user address space,
  the sysctls and the cache type. None of these is declared in the file itself, so they
  are parameters of every function below.
\<close>

record kernel_env =
  PAGE_SHIFT :: nat
  SHMLBA :: ulong
  TASK_SIZE :: ulong
  TASK_UNMAPPED_BASE :: ulong
  FIRST_USER_ADDRESS :: ulong
  mmap_min_addr :: ulong
  mmap_rnd_bits :: nat
  cache_is_vipt_aliasing :: bool
  sysctl_legacy_va_layout :: "32 word"

text \<open>One mapped region, \<open>struct vm_area_struct\<close>: the interval \<open>[vm_start, vm_end)\<close>.\<close>

record vm_area_struct =
  vm_start :: ulong
  vm_end :: ulong
  vm_flags :: ulong

text \<open>The two placement functions a \<open>struct mm_struct\<close> can point to.\<close>

datatype area_fn = Bottom_up | Top_down

text \<open>
  \<open>struct mm_struct\<close>: the base of the mmap area, the placement function chosen for the
  address space, and the mapped regions in address order.
\<close>

record mm_struct =
  mm_mmap_base :: ulong
  mm_get_unmapped_area :: area_fn
  mm_mmap :: "vm_area_struct list"

text \<open>
  What the file reads of \<open>current\<close>: the personality, the task flags and the soft limit
  of \<open>RLIMIT_STACK\<close>.
\<close>

record task_struct =
  personality :: "32 word"
  task_flags :: "32 word"
  rlimit_stack :: ulong

text \<open>\<open>struct vm_unmapped_area_info\<close>, the request handed to the gap search.\<close>

record vm_unmapped_area_info =
  info_flags :: ulong
  info_length :: ulong
  low_limit :: ulong
  high_limit :: ulong
  align_mask :: ulong
  align_offset :: ulong

section \<open>Constants of the kernel ABI\<close>

definition ENOMEM :: ulong where "ENOMEM = 12"
definition EINVAL :: ulong where "EINVAL = 22"
definition MAP_SHARED :: ulong where "MAP_SHARED = 0x01"
definition MAP_FIXED :: ulong where "MAP_FIXED = 0x10"
definition VM_UNMAPPED_AREA_TOPDOWN :: ulong where "VM_UNMAPPED_AREA_TOPDOWN = 1"
definition ADDR_COMPAT_LAYOUT :: "32 word" where "ADDR_COMPAT_LAYOUT = 0x0200000"
definition PF_RANDOMIZE :: "32 word" where "PF_RANDOMIZE = 0x00400000"
definition RLIM_INFINITY :: ulong where "RLIM_INFINITY = NOT 0"

section \<open>Page arithmetic\<close>

text \<open>
  Modelled from the spec: \<open>PAGE_SIZE\<close>, \<open>PAGE_MASK\<close> and \<open>PAGE_ALIGN\<close> of \<open>asm/page.h\<close> and
  \<open>linux/mm.h\<close>, which the file includes but does not contain: the page size is
  \<open>1UL << PAGE_SHIFT\<close> and \<open>PAGE_ALIGN\<close> is the spec's page rounding, up to the next
  multiple of the page size.
\<close>

definition PAGE_SIZE :: "kernel_env \<Rightarrow> ulong" where
  "PAGE_SIZE k = push_bit (PAGE_SHIFT k) 1"

definition PAGE_MASK :: "kernel_env \<Rightarrow> ulong" where
  "PAGE_MASK k = NOT (PAGE_SIZE k - 1)"

definition PAGE_ALIGN :: "kernel_env \<Rightarrow> ulong \<Rightarrow> ulong" where
  "PAGE_ALIGN k addr = (addr + PAGE_SIZE k - 1) AND PAGE_MASK k"

section \<open>The macros of the file\<close>

definition COLOUR_ALIGN :: "kernel_env \<Rightarrow> ulong \<Rightarrow> ulong \<Rightarrow> ulong" where
  "COLOUR_ALIGN k addr pgoff =
     ((addr + SHMLBA k - 1) AND NOT (SHMLBA k - 1)) +
     (push_bit (PAGE_SHIFT k) pgoff AND (SHMLBA k - 1))"

definition MIN_GAP :: ulong where
  "MIN_GAP = 128 * 1024 * 1024"

definition MAX_GAP :: "kernel_env \<Rightarrow> ulong" where
  "MAX_GAP k = TASK_SIZE k div 6 * 5"

section \<open>Layout policy\<close>

text \<open>\<open>mmap_is_legacy\<close> returns a C \<open>int\<close>; its callers test it against zero.\<close>

definition mmap_is_legacy :: "kernel_env \<Rightarrow> task_struct \<Rightarrow> 32 word" where
  "mmap_is_legacy k current =
     (if personality current AND ADDR_COMPAT_LAYOUT \<noteq> 0 then 1
      else if rlimit_stack current = RLIM_INFINITY then 1
      else sysctl_legacy_va_layout k)"

definition mmap_base :: "kernel_env \<Rightarrow> task_struct \<Rightarrow> ulong \<Rightarrow> ulong" where
  "mmap_base k current rnd =
     (let gap = rlimit_stack current;
          gap = (if gap < MIN_GAP then MIN_GAP
                 else if gap > MAX_GAP k then MAX_GAP k
                 else gap)
      in PAGE_ALIGN k (TASK_SIZE k - gap - rnd))"

text \<open>
  \<open>arch_mmap_rnd\<close>: the value drawn by \<open>get_random_int()\<close> is the argument \<open>r\<close>.
\<close>

definition arch_mmap_rnd :: "kernel_env \<Rightarrow> 32 word \<Rightarrow> ulong" where
  "arch_mmap_rnd k r =
     (let rnd = r AND (push_bit (mmap_rnd_bits k) 1 - 1)
      in push_bit (PAGE_SHIFT k) rnd)"

definition arch_pick_mmap_layout ::
  "kernel_env \<Rightarrow> task_struct \<Rightarrow> 32 word \<Rightarrow> mm_struct \<Rightarrow> mm_struct" where
  "arch_pick_mmap_layout k current r mm =
     (let random_factor =
            (if task_flags current AND PF_RANDOMIZE \<noteq> 0 then arch_mmap_rnd k r else 0)
      in if mmap_is_legacy k current \<noteq> 0
         then mm\<lparr>mm_mmap_base := TASK_UNMAPPED_BASE k + random_factor,
                 mm_get_unmapped_area := Bottom_up\<rparr>
         else mm\<lparr>mm_mmap_base := mmap_base k current random_factor,
                 mm_get_unmapped_area := Top_down\<rparr>)"

section \<open>Physical address validation\<close>

text \<open>
  \<open>devmem_is_allowed\<close> asks two collaborators that live elsewhere in the kernel,
  \<open>iomem_is_exclusive\<close> (on a byte address) and \<open>page_is_ram\<close> (on a page frame number);
  both are arguments here. The result is a C \<open>int\<close>.
\<close>

definition devmem_is_allowed ::
  "kernel_env \<Rightarrow> (ulong \<Rightarrow> bool) \<Rightarrow> (ulong \<Rightarrow> bool) \<Rightarrow> ulong \<Rightarrow> 32 word" where
  "devmem_is_allowed k iomem_is_exclusive page_is_ram pfn =
     (if iomem_is_exclusive (push_bit (PAGE_SHIFT k) pfn) then 0
      else if \<not> page_is_ram pfn then 1
      else 0)"

section \<open>The interval index\<close>

text \<open>
  Modelled from the spec: \<open>find_vma\<close> of \<open>mm/mmap.c\<close>, which is not part of the file.
  The spec's interval index answers "find the region, if any, whose range contains or
  follows address X": the first region, in address order, that ends above the address.
\<close>

definition find_vma :: "mm_struct \<Rightarrow> ulong \<Rightarrow> vm_area_struct option" where
  "find_vma mm addr = find (\<lambda>vma. addr < vm_end vma) (mm_mmap mm)"

text \<open>
  Modelled from the spec: \<open>vm_start_gap\<close> of \<open>linux/mm.h\<close>, which is not part of the file.
  The spec keeps "a one-page guard gap before the next higher region (the start gap)":
  the start of the region moved down by one page, and 0 where that would pass below
  address 0.
\<close>

definition vm_start_gap :: "kernel_env \<Rightarrow> vm_area_struct \<Rightarrow> ulong" where
  "vm_start_gap k vma =
     (if vm_start vma < PAGE_SIZE k then 0 else vm_start vma - PAGE_SIZE k)"

text \<open>
  Modelled from the spec: the test behind \<open>vm_unmapped_area\<close> of \<open>mm/mmap.c\<close>, which is not
  part of the file. An address fits a request when it lies in \<open>[low_limit, high_limit)\<close>
  together with \<open>length\<close> bytes after it, satisfies the alignment mask and offset, and
  every region either ends at or below it or starts, guard gap included, at or above its
  end.
\<close>

definition gap_fits ::
  "kernel_env \<Rightarrow> mm_struct \<Rightarrow> vm_unmapped_area_info \<Rightarrow> ulong \<Rightarrow> bool" where
  "gap_fits k mm info a \<longleftrightarrow>
     low_limit info \<le> a \<and>
     unat a + unat (info_length info) \<le> unat (high_limit info) \<and>
     (a - align_offset info) AND align_mask info = 0 \<and>
     list_all (\<lambda>vma. vm_end vma \<le> a \<or>
                 unat a + unat (info_length info) \<le> unat (vm_start_gap k vma))
       (mm_mmap mm)"

text \<open>
  The lowest and the highest page frame number among \<open>i, ..., i + n - 1\<close> that satisfies
  a test: first fit ascending and first fit descending.
\<close>

primrec lowest_fit :: "(nat \<Rightarrow> bool) \<Rightarrow> nat \<Rightarrow> nat \<Rightarrow> nat option" where
  "lowest_fit P i 0 = None"
| "lowest_fit P i (Suc n) = (if P i then Some i else lowest_fit P (Suc i) n)"

primrec highest_fit :: "(nat \<Rightarrow> bool) \<Rightarrow> nat \<Rightarrow> nat \<Rightarrow> nat option" where
  "highest_fit P i 0 = None"
| "highest_fit P i (Suc n) = (if P (i + n) then Some (i + n) else highest_fit P i n)"

text \<open>
  Modelled from the spec: \<open>vm_unmapped_area\<close> of \<open>mm/mmap.c\<close>, which is not part of the
  file. The spec's \<open>lowest_gap\<close> and \<open>highest_gap\<close>: among the page-aligned addresses of
  \<open>[low_limit, high_limit)\<close>, the lowest one that fits (bottom-up) or the highest one that
  fits (when \<open>VM_UNMAPPED_AREA_TOPDOWN\<close> is set), and \<open>-ENOMEM\<close> when none fits.
\<close>

definition vm_unmapped_area ::
  "kernel_env \<Rightarrow> mm_struct \<Rightarrow> vm_unmapped_area_info \<Rightarrow> ulong" where
  "vm_unmapped_area k mm info =
     (let first = unat (low_limit info) div 2 ^ PAGE_SHIFT k;
          count = Suc (unat (high_limit info) div 2 ^ PAGE_SHIFT k) - first;
          fits = (\<lambda>pfn. gap_fits k mm info (push_bit (PAGE_SHIFT k) (of_nat pfn)))
      in case (if info_flags info AND VM_UNMAPPED_AREA_TOPDOWN \<noteq> 0
               then highest_fit fits first count
               else lowest_fit fits first count) of
           None \<Rightarrow> - ENOMEM
         | Some pfn \<Rightarrow> push_bit (PAGE_SHIFT k) (of_nat pfn))"

section \<open>The gap finder\<close>

text \<open>
  Both placement functions return the address or the negated error code in one
  \<open>unsigned long\<close>. The model returns, next to it, the requests the call handed to
  \<open>vm_unmapped_area\<close>, in order: the empty list when the call returned without a gap
  search. The rate-limited \<open>printk\<close> diagnostics do not influence the result and are left
  out.
\<close>

definition arch_get_unmapped_area ::
  "kernel_env \<Rightarrow> mm_struct \<Rightarrow> bool \<Rightarrow> ulong \<Rightarrow> ulong \<Rightarrow> ulong \<Rightarrow> ulong \<Rightarrow>
   ulong \<times> vm_unmapped_area_info list" where
  "arch_get_unmapped_area k mm filp addr len pgoff flags =
     (let aliasing = cache_is_vipt_aliasing k;
          do_align = (aliasing \<and> (filp \<or> flags AND MAP_SHARED \<noteq> 0))
      in if flags AND MAP_FIXED \<noteq> 0 then
           (if aliasing \<and> flags AND MAP_SHARED \<noteq> 0 \<and>
               (addr - push_bit (PAGE_SHIFT k) pgoff) AND (SHMLBA k - 1) \<noteq> 0
            then (- EINVAL, [])
            else (addr, []))
         else if len > TASK_SIZE k - mmap_min_addr k then (- ENOMEM, [])
         else
           let hint = (if do_align then COLOUR_ALIGN k addr pgoff else PAGE_ALIGN k addr)
           in if addr \<noteq> 0 \<and> TASK_SIZE k - len \<ge> hint \<and> hint \<ge> mmap_min_addr k \<and>
                 (case find_vma mm hint of
                    None \<Rightarrow> True
                  | Some vma \<Rightarrow> hint + len \<le> vm_start_gap k vma)
              then (hint, [])
              else
                let info = \<lparr>info_flags = 0,
                            info_length = len,
                            low_limit = max (mm_mmap_base mm) (mmap_min_addr k),
                            high_limit = TASK_SIZE k,
                            align_mask =
                              (if do_align then PAGE_MASK k AND (SHMLBA k - 1) else 0),
                            align_offset = push_bit (PAGE_SHIFT k) pgoff\<rparr>
                in (vm_unmapped_area k mm info, [info]))"

definition arch_get_unmapped_area_topdown ::
  "kernel_env \<Rightarrow> mm_struct \<Rightarrow> bool \<Rightarrow> ulong \<Rightarrow> ulong \<Rightarrow> ulong \<Rightarrow> ulong \<Rightarrow>
   ulong \<times> vm_unmapped_area_info list" where
  "arch_get_unmapped_area_topdown k mm filp addr0 len pgoff flags =
     (let aliasing = cache_is_vipt_aliasing k;
          do_align = (aliasing \<and> (filp \<or> flags AND MAP_SHARED \<noteq> 0))
      in if len > TASK_SIZE k - mmap_min_addr k then (- ENOMEM, [])
         else if flags AND MAP_FIXED \<noteq> 0 then
           (if aliasing \<and> flags AND MAP_SHARED \<noteq> 0 \<and>
               (addr0 - push_bit (PAGE_SHIFT k) pgoff) AND (SHMLBA k - 1) \<noteq> 0
            then (- EINVAL, [])
            else (addr0, []))
         else
           let hint = (if do_align then COLOUR_ALIGN k addr0 pgoff else PAGE_ALIGN k addr0)
           in if addr0 \<noteq> 0 \<and> TASK_SIZE k - len \<ge> hint \<and> hint \<ge> mmap_min_addr k \<and>
                 (case find_vma mm hint of
                    None \<Rightarrow> True
                  | Some vma \<Rightarrow> hint + len \<le> vm_start_gap k vma)
              then (hint, [])
              else
                let info = \<lparr>info_flags = VM_UNMAPPED_AREA_TOPDOWN,
                            info_length = len,
                            low_limit = max (FIRST_USER_ADDRESS k) (mmap_min_addr k),
                            high_limit = mm_mmap_base mm,
                            align_mask =
                              (if do_align then PAGE_MASK k AND (SHMLBA k - 1) else 0),
                            align_offset = push_bit (PAGE_SHIFT k) pgoff\<rparr>;
                    addr = vm_unmapped_area k mm info
                in if addr AND NOT (PAGE_MASK k) \<noteq> 0 then
                     let info' = info\<lparr>info_flags := 0,
                                      low_limit := mm_mmap_base mm,
                                      high_limit := TASK_SIZE k\<rparr>
                     in (vm_unmapped_area k mm info', [info, info'])
                   else (addr, [info]))"

section \<open>The layout policy in the spec's words\<close>

text \<open>
  The spec's \<open>compute_gap\<close> and \<open>compute_topdown_base\<close>, in exact integer arithmetic, to
  be compared with \<open>mmap_base\<close>: the stack limit clamped into \<open>[MIN_GAP, MAX_GAP]\<close> with
  \<open>MIN_GAP = 128 MiB\<close> and \<open>MAX_GAP = 5/6 * task_size\<close>, and
  \<open>page_align(task_size - compute_gap(stack_limit) - randomization)\<close>. Five sixths of
  the task size is rounded down to an integer; for an integer stack limit and page
  multiples \<open>task_size\<close> and \<open>randomization\<close> the rounding does not change the base.
\<close>

definition spec_compute_gap :: "int \<Rightarrow> int \<Rightarrow> int" where
  "spec_compute_gap task_size stack_limit =
     min (max stack_limit (128 * 1024 * 1024)) (5 * task_size div 6)"

definition spec_compute_topdown_base :: "int \<Rightarrow> int \<Rightarrow> int \<Rightarrow> int \<Rightarrow> int" where
  "spec_compute_topdown_base page_size task_size stack_limit randomization =
     (task_size - spec_compute_gap task_size stack_limit - randomization + page_size - 1)
       div page_size * page_size"

section \<open>Names for the statements\<close>

text \<open>
  The values both placement functions compute on the way, under names: the aligned hint,
  and the three values of \<open>info\<close> they hand to \<open>vm_unmapped_area\<close> (the bottom-up request,
  the top-down request, and the request of the top-down function's second, bottom-up
  attempt).
\<close>

definition aligned_hint :: "kernel_env \<Rightarrow> bool \<Rightarrow> ulong \<Rightarrow> ulong \<Rightarrow> ulong \<Rightarrow> ulong" where
  "aligned_hint k filp addr pgoff flags =
     (if cache_is_vipt_aliasing k \<and> (filp \<or> flags AND MAP_SHARED \<noteq> 0)
      then COLOUR_ALIGN k addr pgoff else PAGE_ALIGN k addr)"

definition bottomup_request ::
  "kernel_env \<Rightarrow> mm_struct \<Rightarrow> bool \<Rightarrow> ulong \<Rightarrow> ulong \<Rightarrow> ulong \<Rightarrow> vm_unmapped_area_info" where
  "bottomup_request k mm filp len pgoff flags =
     \<lparr>info_flags = 0,
      info_length = len,
      low_limit = max (mm_mmap_base mm) (mmap_min_addr k),
      high_limit = TASK_SIZE k,
      align_mask = (if cache_is_vipt_aliasing k \<and> (filp \<or> flags AND MAP_SHARED \<noteq> 0)
                    then PAGE_MASK k AND (SHMLBA k - 1) else 0),
      align_offset = push_bit (PAGE_SHIFT k) pgoff\<rparr>"

definition topdown_request ::
  "kernel_env \<Rightarrow> mm_struct \<Rightarrow> bool \<Rightarrow> ulong \<Rightarrow> ulong \<Rightarrow> ulong \<Rightarrow> vm_unmapped_area_info" where
  "topdown_request k mm filp len pgoff flags =
     \<lparr>info_flags = VM_UNMAPPED_AREA_TOPDOWN,
      info_length = len,
      low_limit = max (FIRST_USER_ADDRESS k) (mmap_min_addr k),
      high_limit = mm_mmap_base mm,
      align_mask = (if cache_is_vipt_aliasing k \<and> (filp \<or> flags AND MAP_SHARED \<noteq> 0)
                    then PAGE_MASK k AND (SHMLBA k - 1) else 0),
      align_offset = push_bit (PAGE_SHIFT k) pgoff\<rparr>"

definition fallback_request ::
  "kernel_env \<Rightarrow> mm_struct \<Rightarrow> bool \<Rightarrow> ulong \<Rightarrow> ulong \<Rightarrow> ulong \<Rightarrow> vm_unmapped_area_info" where
  "fallback_request k mm filp len pgoff flags =
     (topdown_request k mm filp len pgoff flags)
       \<lparr>info_flags := 0, low_limit := mm_mmap_base mm, high_limit := TASK_SIZE k\<rparr>"

text \<open>
  The hint test of both functions, read as numbers: the hint and the length fit below
  \<open>TASK_SIZE\<close>, the hint is not below \<open>mmap_min_addr\<close>, and the region \<open>find_vma\<close>
  returns, if any, begins, guard gap included, at or above the end of the request.
\<close>

definition hint_accepted :: "kernel_env \<Rightarrow> mm_struct \<Rightarrow> ulong \<Rightarrow> ulong \<Rightarrow> bool" where
  "hint_accepted k mm h len \<longleftrightarrow>
     unat h + unat len \<le> unat (TASK_SIZE k) \<and> mmap_min_addr k \<le> h \<and>
     (case find_vma mm h of
        None \<Rightarrow> True
      | Some vma \<Rightarrow> unat h + unat len \<le> unat (vm_start_gap k vma))"

text \<open>
  The invariant of a placement: page-aligned, not below \<open>mmap_min_addr\<close>, ending at or
  below \<open>TASK_SIZE\<close>, and every region either ends at or below it or begins, guard gap
  included, at or above its end.
\<close>

definition placed :: "kernel_env \<Rightarrow> mm_struct \<Rightarrow> ulong \<Rightarrow> ulong \<Rightarrow> bool" where
  "placed k mm a len \<longleftrightarrow>
     a AND (2 ^ PAGE_SHIFT k - 1) = 0 \<and> mmap_min_addr k \<le> a \<and>
     unat a + unat len \<le> unat (TASK_SIZE k) \<and>
     list_all (\<lambda>vma. vm_end vma \<le> a \<or> unat a + unat len \<le> unat (vm_start_gap k vma))
       (mm_mmap mm)"

section \<open>The hint condition in the claim's words\<close>

text \<open>
  The third condition of the hint path as the claim words it: "either no mapped region
  starts at or after \<open>h\<close> or the next such region's guard-adjusted start is
  \<open>>= h + length\<close>", to be compared with the test of the file, which asks \<open>find_vma\<close>.
\<close>

definition spec_next_region_clear ::
  "kernel_env \<Rightarrow> mm_struct \<Rightarrow> ulong \<Rightarrow> ulong \<Rightarrow> bool" where
  "spec_next_region_clear k mm h len \<longleftrightarrow>
     (case find (\<lambda>vma. h \<le> vm_start vma) (mm_mmap mm) of
        None \<Rightarrow> True
      | Some vma \<Rightarrow> unat h + unat len \<le> unat (vm_start_gap k vma))"

section \<open>The alignment requirement in the spec's words\<close>

text \<open>
  The spec's \<open>requires_alignment\<close>: "true iff
  \<open>cache_aliases && (is_file_backed || is_shared)\<close>". The file computes it as \<open>do_align\<close>.
\<close>

definition spec_requires_alignment :: "bool \<Rightarrow> bool \<Rightarrow> bool \<Rightarrow> bool" where
  "spec_requires_alignment is_file_backed is_shared cache_aliases \<longleftrightarrow>
     cache_aliases \<and> (is_file_backed \<or> is_shared)"

section \<open>Example configurations\<close>

text \<open>
  A 32-bit ARM kernel with 4 KiB pages and the 3G/1G split: \<open>SHMLBA\<close> is four pages,
  \<open>TASK_SIZE\<close> is \<open>PAGE_OFFSET - 16 MiB\<close>, \<open>TASK_UNMAPPED_BASE\<close> is a third of it rounded
  up to 16 MiB, \<open>FIRST_USER_ADDRESS\<close> is two pages. The caches alias.
\<close>

definition arm_env :: kernel_env where
  "arm_env = \<lparr>PAGE_SHIFT = 12, SHMLBA = 0x4000, TASK_SIZE = 0xBF000000,
              TASK_UNMAPPED_BASE = 0x40000000, FIRST_USER_ADDRESS = 0x2000,
              mmap_min_addr = 0x8000, mmap_rnd_bits = 8, cache_is_vipt_aliasing = True,
              sysctl_legacy_va_layout = 0\<rparr>"

text \<open>An address space with the one region of the spec's example scenario.\<close>

definition one_region_mm :: mm_struct where
  "one_region_mm = \<lparr>mm_mmap_base = 0x40000000, mm_get_unmapped_area = Bottom_up,
                    mm_mmap = [\<lparr>vm_start = 0x10000000, vm_end = 0x10001000, vm_flags = 0\<rparr>]\<rparr>"

text \<open>An address space with one wider region, to aim a hint into.\<close>

definition wide_region_mm :: mm_struct where
  "wide_region_mm = \<lparr>mm_mmap_base = 0x40000000, mm_get_unmapped_area = Bottom_up,
                     mm_mmap = [\<lparr>vm_start = 0x10000000, vm_end = 0x10010000, vm_flags = 0\<rparr>]\<rparr>"

text \<open>
  An address space whose range below \<open>mmap_base\<close> is fully occupied: one region from
  \<open>mmap_min_addr\<close> up to \<open>mmap_base\<close>.
\<close>

definition full_below_mm :: mm_struct where
  "full_below_mm = \<lparr>mm_mmap_base = 0x10000, mm_get_unmapped_area = Top_down,
                    mm_mmap = [\<lparr>vm_start = 0x8000, vm_end = 0x10000, vm_flags = 0\<rparr>]\<rparr>"

text \<open>
  The spec's two example scenarios: \<open>task_size = 0x40000000\<close>, no aliasing caches, the
  one region \<open>[0x10000000, 0x10001000)\<close> and the bottom-up floor 0; and a top-down address
  space with \<open>mmap_base = 0x30000000\<close> and a region that abuts the base (four pages here).
\<close>

definition spec_example_env :: "ulong \<Rightarrow> kernel_env" where
  "spec_example_env min_addr = arm_env\<lparr>TASK_SIZE := 0x40000000, mmap_min_addr := min_addr,
                                         cache_is_vipt_aliasing := False\<rparr>"

definition spec_example_mm :: mm_struct where
  "spec_example_mm = one_region_mm\<lparr>mm_mmap_base := 0\<rparr>"

definition abutting_mm :: mm_struct where
  "abutting_mm = \<lparr>mm_mmap_base = 0x30000000, mm_get_unmapped_area = Top_down,
                  mm_mmap = [\<lparr>vm_start = 0x2FFFC000, vm_end = 0x30000000, vm_flags = 0\<rparr>]\<rparr>"

section \<open>Words as numbers\<close>

text \<open>
  The masks of the file are of the form \<open>2 ^ j - 1\<close>. The lemmas below read the masked
  words as natural numbers: the low bits are a remainder, the high bits a rounding down.
\<close>

lemma pow_minus_one_mask: "(2 ^ j - 1 :: 32 word) = mask j"
  by (simp add: mask_eq_exp_minus_1)

lemma unat_and_low: "unat (x AND (2 ^ j - 1) :: 32 word) = unat x mod 2 ^ j"
proof -
  have "unat (take_bit j x) = take_bit j (unat x)"
    by (rule unsigned_take_bit_eq)
  then show ?thesis
    by (simp only: pow_minus_one_mask take_bit_eq_mask [symmetric]) (simp only: take_bit_eq_mod)
qed

lemma and_not_low: "(x AND NOT (2 ^ j - 1) :: 32 word) = x - (x AND (2 ^ j - 1))"
proof -
  have "x - (x AND (2 ^ j - 1)) = x AND NOT (x AND (2 ^ j - 1))"
    by (rule disjunctive_diff_eq_and_not) (auto simp: bit_eq_iff bit_simps)
  also have "\<dots> = x AND NOT (2 ^ j - 1)"
    by (auto simp: bit_eq_iff bit_simps)
  finally show ?thesis by simp
qed

lemma unat_and_not_low: "unat (x AND NOT (2 ^ j - 1) :: 32 word) = unat x - unat x mod 2 ^ j"
proof -
  have "x AND (2 ^ j - 1) \<le> x" by (simp add: word_and_le2)
  then show ?thesis
    by (simp add: and_not_low unat_sub unat_and_low)
qed

lemma unat_push_bit32: "unat (push_bit n (x::32 word)) = (unat x * 2 ^ n) mod 2 ^ 32"
proof -
  have "unat (push_bit n x) = take_bit 32 (push_bit n (unat x))"
    by (simp add: unsigned_push_bit_eq)
  then show ?thesis
    by (simp only: push_bit_eq_mult take_bit_eq_mod)
qed

lemma unat_pow32: "j < 32 \<Longrightarrow> unat (2 ^ j :: 32 word) = 2 ^ j"
proof -
  assume "j < 32"
  then have "(2::nat) ^ j < 2 ^ 32"
    by (simp only: power_strict_increasing_iff one_less_numeral_iff semiring_norm)
  moreover have "unat (push_bit j (1::32 word)) = (unat (1::32 word) * 2 ^ j) mod 2 ^ 32"
    by (rule unat_push_bit32)
  ultimately show ?thesis
    by (simp add: push_bit_eq_mult)
qed

lemma unat_low_mask: "j < 32 \<Longrightarrow> unat (2 ^ j - 1 :: 32 word) = 2 ^ j - 1"
proof -
  assume j: "j < 32"
  then have "unat (2 ^ j :: 32 word) = 2 ^ j" by (rule unat_pow32)
  moreover from this have "(2 ^ j :: 32 word) \<noteq> 0"
    by (metis unat_0 power_not_zero zero_neq_numeral)
  ultimately show ?thesis
    by (simp add: unat_minus_one)
qed

text \<open>Adding a multiple of \<open>2 ^ j\<close> commutes with clearing the low \<open>j\<close> bits.\<close>

lemma and_low_add_multiple:
  fixes r y :: "32 word"
  assumes j: "j < 32" and r: "r AND (2 ^ j - 1) = 0"
  shows "(r + y) AND (2 ^ j - 1) = y AND (2 ^ j - 1)"
proof -
  have d: "(2::nat) ^ j dvd 2 ^ 32"
    by (rule le_imp_power_dvd) (use j in simp)
  have "unat r mod 2 ^ j = 0"
    using r unat_and_low [of r j] by simp
  then have "(unat r + unat y) mod 2 ^ j = unat y mod 2 ^ j"
    by (metis add_cancel_left_left mod_add_left_eq)
  then have "unat ((r + y) AND (2 ^ j - 1)) = unat (y AND (2 ^ j - 1))"
    using d by (simp add: unat_and_low unat_word_ariths mod_mod_cancel)
  then show ?thesis by (simp only: word_unat_eq_iff)
qed

lemma and_not_low_add_multiple:
  fixes r y :: "32 word"
  assumes "j < 32" and "r AND (2 ^ j - 1) = 0"
  shows "(r + y) AND NOT (2 ^ j - 1) = r + (y AND NOT (2 ^ j - 1))"
  by (simp add: and_not_low and_low_add_multiple [OF assms])

lemma round_down_low_zero: "(x AND NOT (2 ^ j - 1)) AND (2 ^ j - 1) = (0 :: 32 word)"
  by (auto simp: bit_eq_iff bit_simps)

lemma colour_second_round:
  fixes c :: "32 word"
  assumes j: "j < 32" and c: "unat c < 2 ^ j"
  shows "(c + (2 ^ j - 1)) AND NOT (2 ^ j - 1) = (if c = 0 then 0 else 2 ^ j)"
proof -
  have p: "(2::nat) ^ j * 2 \<le> 2 ^ 32"
  proof -
    have "(2::nat) ^ Suc j \<le> 2 ^ 32"
      using j by (simp only: power_increasing_iff one_less_numeral_iff semiring_norm)
    then show ?thesis by simp
  qed
  have m: "unat (2 ^ j - 1 :: 32 word) = 2 ^ j - 1"
    using j by (rule unat_low_mask)
  have "unat c + (2 ^ j - 1) < 2 ^ 32"
    using c p by simp
  then have s: "unat (c + (2 ^ j - 1)) = unat c + (2 ^ j - 1)"
    by (simp add: unat_word_ariths m)
  show ?thesis
  proof (cases "c = 0")
    case True
    then show ?thesis by (simp add: round_down_low_zero and_not_low)
  next
    case False
    then have c0: "0 < unat c" by (simp add: unat_gt_0)
    have "(unat c + (2 ^ j - 1)) div 2 ^ j = 1"
      using c c0 by (intro div_nat_eqI) simp_all
    then have "(unat c + (2 ^ j - 1)) - (unat c + (2 ^ j - 1)) mod 2 ^ j = 2 ^ j"
      by (simp add: minus_mod_eq_div_mult)
    then have "unat ((c + (2 ^ j - 1)) AND NOT (2 ^ j - 1)) = unat (2 ^ j :: 32 word)"
      by (simp only: unat_and_not_low s unat_pow32 [OF j])
    then show ?thesis using False by (simp only: word_unat_eq_iff if_False)
  qed
qed

lemma round_down_bound:
  fixes X m s :: nat
  assumes "X < m * s"
  shows "X - X mod s + s \<le> m * s"
proof -
  have "X div s < m"
    using assms by (simp add: less_mult_imp_div_less)
  then have "Suc (X div s) * s \<le> m * s"
    by (intro mult_le_mono1) simp
  moreover have "X - X mod s = X div s * s"
    by (simp add: minus_mod_eq_div_mult)
  ultimately show ?thesis by simp
qed

lemma unat_round_down_room:
  fixes x :: "32 word"
  assumes j: "j < 32"
  shows "unat (x AND NOT (2 ^ j - 1)) + 2 ^ j \<le> 2 ^ 32"
proof -
  have "(2::nat) ^ 32 = 2 ^ (32 - j) * 2 ^ j"
    using j by (simp only: power_add [symmetric]) simp
  moreover have "unat x < 2 ^ 32"
    using unsigned_less [of x] by simp
  ultimately have "unat x < 2 ^ (32 - j) * 2 ^ j" by simp
  then have "unat x - unat x mod 2 ^ j + 2 ^ j \<le> 2 ^ (32 - j) * 2 ^ j"
    by (rule round_down_bound)
  then show ?thesis
    using \<open>(2::nat) ^ 32 = 2 ^ (32 - j) * 2 ^ j\<close> by (simp only: unat_and_not_low)
qed

lemma round_down_ge:
  fixes A s :: nat
  assumes "0 < s"
  shows "A \<le> (A + (s - 1)) - (A + (s - 1)) mod s"
proof -
  have "(A + (s - 1)) mod s < s"
    using assms by (rule mod_less_divisor)
  then show ?thesis by linarith
qed

lemma plus_minus_one_assoc: "(a + s - 1 :: 32 word) = a + (s - 1)"
  by simp

lemma sub_and_low_zero_iff:
  fixes x y :: "32 word"
  assumes j: "j < 32"
  shows "(x - y) AND (2 ^ j - 1) = 0 \<longleftrightarrow> unat x mod 2 ^ j = unat y mod 2 ^ j"
proof -
  have d: "(2::int) ^ j dvd 2 ^ 32"
    by (rule le_imp_power_dvd) (use j in simp)
  have "(x - y) AND (2 ^ j - 1) = 0 \<longleftrightarrow> 2 ^ j dvd uint (x - y)"
    by (simp only: pow_minus_one_mask and_mask_dvd)
  also have "\<dots> \<longleftrightarrow> 2 ^ j dvd (uint x - uint y) mod 2 ^ 32"
    by (simp add: uint_word_ariths)
  also have "\<dots> \<longleftrightarrow> 2 ^ j dvd uint x - uint y"
    using d by (rule dvd_mod_iff)
  also have "\<dots> \<longleftrightarrow> uint x mod 2 ^ j = uint y mod 2 ^ j"
    by (simp only: mod_eq_dvd_iff)
  also have "\<dots> \<longleftrightarrow> int (unat x mod 2 ^ j) = int (unat y mod 2 ^ j)"
    by (simp add: zmod_int)
  finally show ?thesis by (simp only: of_nat_eq_iff)
qed

lemma unat_push_bit_mod:
  fixes x :: "32 word"
  assumes j: "j < 32"
  shows "unat (push_bit n x) mod 2 ^ j = (unat x * 2 ^ n) mod 2 ^ j"
proof -
  have d: "(2::nat) ^ j dvd 2 ^ 32"
    by (rule le_imp_power_dvd) (use j in simp)
  show ?thesis
    unfolding unat_push_bit32 using d by (rule mod_mod_cancel)
qed

section \<open>Pages and error codes\<close>

lemma PAGE_SIZE_pow: "PAGE_SIZE k = 2 ^ PAGE_SHIFT k"
  by (simp add: PAGE_SIZE_def push_bit_eq_mult)

lemma PAGE_ALIGN_low: "PAGE_ALIGN k a AND (2 ^ PAGE_SHIFT k - 1) = 0"
  unfolding PAGE_ALIGN_def PAGE_MASK_def PAGE_SIZE_pow by (rule round_down_low_zero)

lemma COLOUR_ALIGN_low:
  assumes S: "SHMLBA k = 2 ^ j" and sj: "PAGE_SHIFT k \<le> j" and j: "j < 32"
  shows "COLOUR_ALIGN k a pgoff AND (2 ^ PAGE_SHIFT k - 1) = 0"
proof -
  let ?s = "PAGE_SHIFT k"
  define R where "R = (a + 2 ^ j - 1) AND NOT (2 ^ j - 1 :: 32 word)"
  define c where "c = push_bit ?s pgoff AND (2 ^ j - 1 :: 32 word)"
  have s32: "?s < 32" using sj j by simp
  have Rl: "R AND (2 ^ ?s - 1) = 0"
    unfolding R_def using sj by (auto simp: bit_eq_iff bit_simps pow_minus_one_mask)
  have cl: "c AND (2 ^ ?s - 1) = 0"
    unfolding c_def by (auto simp: bit_eq_iff bit_simps pow_minus_one_mask)
  have "(R + c) AND (2 ^ ?s - 1) = 0"
    by (simp only: and_low_add_multiple [OF s32 Rl] cl)
  then show ?thesis
    by (simp only: COLOUR_ALIGN_def S R_def c_def)
qed

lemma ENOMEM_low:
  assumes "3 \<le> s"
  shows "(- ENOMEM) AND (2 ^ s - 1 :: ulong) \<noteq> 0"
proof
  assume z: "(- ENOMEM) AND (2 ^ s - 1 :: ulong) = 0"
  have "bit ((- ENOMEM) AND (2 ^ s - 1 :: ulong)) 2"
    using assms by (simp add: ENOMEM_def pow_minus_one_mask bit_simps)
  with z show False by simp
qed

lemma aligned_not_ENOMEM:
  assumes "3 \<le> s" and "h AND (2 ^ s - 1 :: ulong) = 0"
  shows "h \<noteq> - ENOMEM"
  using ENOMEM_low [OF assms(1)] assms(2) by auto

text \<open>The length test of the file, read as numbers.\<close>

lemma hint_room:
  fixes h len ts mn :: "32 word"
  assumes mn: "mn \<le> ts" and len: "\<not> ts - mn < len"
  shows "h \<le> ts - len \<longleftrightarrow> unat h + unat len \<le> unat ts"
proof -
  have "unat (ts - mn) = unat ts - unat mn"
    using mn by (simp add: unat_sub)
  with len have l: "unat len \<le> unat ts"
    by (simp add: word_less_nat_alt)
  then have "len \<le> ts" by (simp add: word_le_nat_alt)
  then have "unat (ts - len) = unat ts - unat len"
    by (simp add: unat_sub)
  with l show ?thesis
    by (auto simp: word_le_nat_alt)
qed

lemma hint_end:
  fixes h len ts :: "32 word"
  assumes "unat h + unat len \<le> unat ts"
  shows "unat (h + len) = unat h + unat len"
proof -
  have "unat ts < 2 ^ 32" using unsigned_less [of ts] by simp
  with assms have "unat h + unat len < 2 ^ 32" by simp
  then show ?thesis by (simp add: unat_word_ariths)
qed

lemma hint_too_long:
  fixes h len ts mn :: "32 word"
  assumes "unat h + unat len \<le> unat ts" and "mn \<le> h"
  shows "\<not> ts - mn < len"
proof -
  have "unat mn \<le> unat h" using assms(2) by (simp add: word_le_nat_alt)
  with assms(1) have m: "unat mn \<le> unat ts" and l: "unat len \<le> unat ts - unat mn" by simp_all
  from m have "mn \<le> ts" by (simp add: word_le_nat_alt)
  then have "unat (ts - mn) = unat ts - unat mn" by (simp add: unat_sub)
  with l show ?thesis by (simp add: word_less_nat_alt)
qed
lemma hint_test:
  assumes mn: "mmap_min_addr k \<le> TASK_SIZE k" and len: "\<not> TASK_SIZE k - mmap_min_addr k < len"
  shows "(h \<le> TASK_SIZE k - len \<and> mmap_min_addr k \<le> h \<and>
          (case find_vma mm h of None \<Rightarrow> True | Some vma \<Rightarrow> h + len \<le> vm_start_gap k vma))
         \<longleftrightarrow> hint_accepted k mm h len"
  unfolding hint_accepted_def hint_room [OF mn len, of h]
  by (auto simp: word_le_nat_alt hint_end split: option.splits)

section \<open>The gap search\<close>

lemma lowest_fit_SomeD:
  "lowest_fit P i n = Some p \<Longrightarrow> P p \<and> i \<le> p \<and> p < i + n"
proof (induction n arbitrary: i)
  case 0
  then show ?case by simp
next
  case (Suc n)
  show ?case
  proof (cases "P i")
    case True
    with Suc.prems show ?thesis by auto
  next
    case False
    with Suc.prems have "lowest_fit P (Suc i) n = Some p" by simp
    from Suc.IH [OF this] show ?thesis by simp
  qed
qed

lemma lowest_fit_None_iff:
  "lowest_fit P i n = None \<longleftrightarrow> (\<forall>p. i \<le> p \<and> p < i + n \<longrightarrow> \<not> P p)"
proof (induction n arbitrary: i)
  case 0
  show ?case by auto
next
  case (Suc n)
  have "(\<forall>p. i \<le> p \<and> p < i + Suc n \<longrightarrow> \<not> P p) \<longleftrightarrow>
        \<not> P i \<and> (\<forall>p. Suc i \<le> p \<and> p < Suc i + n \<longrightarrow> \<not> P p)"
    (is "?L \<longleftrightarrow> ?R")
  proof
    assume ?L
    then show ?R by auto
  next
    assume R: ?R
    show ?L
    proof (intro allI impI)
      fix p
      assume "i \<le> p \<and> p < i + Suc n"
      then consider "p = i" | "Suc i \<le> p \<and> p < Suc i + n" by linarith
      then show "\<not> P p" using R by cases auto
    qed
  qed
  with Suc.IH [of "Suc i"] show ?case by simp
qed

lemma highest_fit_SomeD:
  "highest_fit P i n = Some p \<Longrightarrow> P p \<and> i \<le> p \<and> p < i + n"
proof (induction n)
  case 0
  then show ?case by simp
next
  case (Suc n)
  show ?case
  proof (cases "P (i + n)")
    case True
    with Suc.prems show ?thesis by auto
  next
    case False
    with Suc.prems have "highest_fit P i n = Some p" by simp
    from Suc.IH [OF this] show ?thesis by simp
  qed
qed

lemma highest_fit_None_iff:
  "highest_fit P i n = None \<longleftrightarrow> (\<forall>p. i \<le> p \<and> p < i + n \<longrightarrow> \<not> P p)"
proof (induction n)
  case 0
  show ?case by auto
next
  case (Suc n)
  have "(\<forall>p. i \<le> p \<and> p < i + Suc n \<longrightarrow> \<not> P p) \<longleftrightarrow>
        \<not> P (i + n) \<and> (\<forall>p. i \<le> p \<and> p < i + n \<longrightarrow> \<not> P p)"
    by (auto simp: less_Suc_eq)
  with Suc.IH show ?case by simp
qed

text \<open>Unfolding one step of a scan whose length is a numeral.\<close>

lemma lowest_fit_unfold:
  "0 < n \<Longrightarrow> lowest_fit P i n = (if P i then Some i else lowest_fit P (Suc i) (n - 1))"
  by (cases n) simp_all

lemma highest_fit_unfold:
  "0 < n \<Longrightarrow> highest_fit P i n =
     (if P (i + (n - 1)) then Some (i + (n - 1)) else highest_fit P i (n - 1))"
  by (cases n) simp_all

lemma push_bit_low: "push_bit s (x :: 32 word) AND (2 ^ s - 1) = 0"
  by (auto simp: bit_eq_iff bit_simps pow_minus_one_mask)

lemma aligned_is_frame:
  fixes a :: "32 word"
  assumes "a AND (2 ^ s - 1) = 0"
  shows "a = push_bit s (of_nat (unat a div 2 ^ s))"
proof -
  have "unat a mod 2 ^ s = 0"
    using assms unat_and_low [of a s] by simp
  then have "unat a = unat a div 2 ^ s * 2 ^ s"
    by (simp add: mod_eq_0_iff_dvd)
  then have "of_nat (unat a) = (of_nat (unat a div 2 ^ s * 2 ^ s) :: 32 word)"
    by simp
  then show ?thesis
    by (simp add: push_bit_eq_mult)
qed

lemma vm_unmapped_area_cases:
  "vm_unmapped_area k mm info = - ENOMEM \<or>
   (vm_unmapped_area k mm info AND (2 ^ PAGE_SHIFT k - 1) = 0 \<and>
    gap_fits k mm info (vm_unmapped_area k mm info))"
  unfolding vm_unmapped_area_def Let_def
  by (auto split: option.splits dest: lowest_fit_SomeD highest_fit_SomeD simp: push_bit_low)

lemma vm_unmapped_area_finds:
  assumes a: "a AND (2 ^ PAGE_SHIFT k - 1) = 0" and fits: "gap_fits k mm info a"
  shows "vm_unmapped_area k mm info AND (2 ^ PAGE_SHIFT k - 1) = 0 \<and>
         gap_fits k mm info (vm_unmapped_area k mm info)"
proof -
  let ?s = "PAGE_SHIFT k"
  let ?first = "unat (low_limit info) div 2 ^ ?s"
  let ?count = "Suc (unat (high_limit info) div 2 ^ ?s) - ?first"
  let ?fits = "\<lambda>pfn. gap_fits k mm info (push_bit ?s (of_nat pfn))"
  let ?p = "unat a div 2 ^ ?s"
  have ap: "a = push_bit ?s (of_nat ?p)"
    using a by (rule aligned_is_frame)
  from fits have "unat (low_limit info) \<le> unat a" and "unat a \<le> unat (high_limit info)"
    by (simp_all add: gap_fits_def word_le_nat_alt)
  then have "?first \<le> ?p" and "?p \<le> unat (high_limit info) div 2 ^ ?s"
    by (simp_all add: div_le_mono)
  then have r: "?first \<le> ?p \<and> ?p < ?first + ?count" by simp
  have f: "?fits ?p" using fits ap by simp
  from r f have "lowest_fit ?fits ?first ?count \<noteq> None" "highest_fit ?fits ?first ?count \<noteq> None"
    unfolding lowest_fit_None_iff highest_fit_None_iff by blast+
  then show ?thesis
    unfolding vm_unmapped_area_def Let_def
    by (auto split: option.splits dest: lowest_fit_SomeD highest_fit_SomeD simp: push_bit_low)
qed

lemma vm_unmapped_area_fails:
  assumes "\<forall>a. a AND (2 ^ PAGE_SHIFT k - 1) = 0 \<longrightarrow> \<not> gap_fits k mm info a"
  shows "vm_unmapped_area k mm info = - ENOMEM"
proof -
  have "\<not> gap_fits k mm info (push_bit (PAGE_SHIFT k) (of_nat pfn))" for pfn
    using assms push_bit_low by blast
  then show ?thesis
    unfolding vm_unmapped_area_def Let_def
    by (simp add: lowest_fit_None_iff [THEN iffD2] highest_fit_None_iff [THEN iffD2])
qed

lemma vm_start_gap_le: "vm_start_gap k vma \<le> vm_start vma"
  by (simp add: vm_start_gap_def word_sub_le)

lemma vm_start_gap_mono:
  assumes "vm_start u \<le> vm_start v"
  shows "vm_start_gap k u \<le> vm_start_gap k v"
proof (cases "vm_start u < PAGE_SIZE k")
  case True
  then show ?thesis by (simp add: vm_start_gap_def)
next
  case False
  then have u: "PAGE_SIZE k \<le> vm_start u" by simp
  with assms have v: "PAGE_SIZE k \<le> vm_start v" by simp
  from v have nv: "\<not> vm_start v < PAGE_SIZE k" by simp
  have "unat (vm_start u - PAGE_SIZE k) \<le> unat (vm_start v - PAGE_SIZE k)"
    using assms by (simp add: unat_sub [OF u] unat_sub [OF v] word_le_nat_alt diff_le_mono)
  with False nv show ?thesis
    by (simp add: vm_start_gap_def word_le_nat_alt)
qed

lemma hint_clear:
  assumes "sorted_wrt (\<lambda>u v. vm_start u \<le> vm_start v) rs"
    and "case find (\<lambda>vma. h < vm_end vma) rs of
           None \<Rightarrow> True | Some vma \<Rightarrow> n \<le> unat (vm_start_gap k vma)"
  shows "list_all (\<lambda>vma. vm_end vma \<le> h \<or> n \<le> unat (vm_start_gap k vma)) rs"
  using assms
proof (induction rs)
  case Nil
  then show ?case by simp
next
  case (Cons r rs)
  show ?case
  proof (cases "h < vm_end r")
    case True
    with Cons.prems(2) have n: "n \<le> unat (vm_start_gap k r)" by simp
    have "n \<le> unat (vm_start_gap k v)" if "v \<in> set rs" for v
    proof -
      from Cons.prems(1) that have "vm_start r \<le> vm_start v" by simp
      then have "vm_start_gap k r \<le> vm_start_gap k v" by (rule vm_start_gap_mono)
      with n show ?thesis by (simp add: word_le_nat_alt)
    qed
    with n show ?thesis by (simp add: list_all_iff)
  next
    case False
    with Cons show ?thesis by (simp add: not_less)
  qed
qed

section \<open>The placement functions, case by case\<close>

lemma not_PAGE_MASK: "NOT (PAGE_MASK k) = 2 ^ PAGE_SHIFT k - 1"
  by (simp add: PAGE_MASK_def PAGE_SIZE_pow)

lemma aligned_hint_low:
  assumes "SHMLBA k = 2 ^ j" "PAGE_SHIFT k \<le> j" "j < 32"
  shows "aligned_hint k filp addr pgoff flags AND (2 ^ PAGE_SHIFT k - 1) = 0"
  unfolding aligned_hint_def using COLOUR_ALIGN_low [OF assms] PAGE_ALIGN_low by simp

lemma bottom_up_not_fixed:
  assumes mn: "mmap_min_addr k \<le> TASK_SIZE k"
    and nf: "flags AND MAP_FIXED = 0"
    and len: "\<not> TASK_SIZE k - mmap_min_addr k < len"
  shows "arch_get_unmapped_area k mm filp addr len pgoff flags =
           (if addr \<noteq> 0 \<and> hint_accepted k mm (aligned_hint k filp addr pgoff flags) len
            then (aligned_hint k filp addr pgoff flags, [])
            else (vm_unmapped_area k mm (bottomup_request k mm filp len pgoff flags),
                  [bottomup_request k mm filp len pgoff flags]))"
  using nf len
  by (simp add: arch_get_unmapped_area_def Let_def hint_test [OF mn len]
      aligned_hint_def [symmetric] bottomup_request_def [symmetric])

lemma topdown_not_fixed:
  assumes mn: "mmap_min_addr k \<le> TASK_SIZE k"
    and nf: "flags AND MAP_FIXED = 0"
    and len: "\<not> TASK_SIZE k - mmap_min_addr k < len"
  shows "arch_get_unmapped_area_topdown k mm filp addr len pgoff flags =
           (if addr \<noteq> 0 \<and> hint_accepted k mm (aligned_hint k filp addr pgoff flags) len
            then (aligned_hint k filp addr pgoff flags, [])
            else if vm_unmapped_area k mm (topdown_request k mm filp len pgoff flags)
                      AND NOT (PAGE_MASK k) \<noteq> 0
            then (vm_unmapped_area k mm (fallback_request k mm filp len pgoff flags),
                  [topdown_request k mm filp len pgoff flags,
                   fallback_request k mm filp len pgoff flags])
            else (vm_unmapped_area k mm (topdown_request k mm filp len pgoff flags),
                  [topdown_request k mm filp len pgoff flags]))"
  using nf len
  by (simp add: arch_get_unmapped_area_topdown_def Let_def hint_test [OF mn len]
      aligned_hint_def [symmetric] fallback_request_def topdown_request_def)

lemma placed_hint:
  assumes "hint_accepted k mm h len"
    and "sorted_wrt (\<lambda>u v. vm_start u \<le> vm_start v) (mm_mmap mm)"
    and "h AND (2 ^ PAGE_SHIFT k - 1) = 0"
  shows "placed k mm h len"
  using assms hint_clear [where rs = "mm_mmap mm" and h = h and n = "unat h + unat len" and k = k]
  by (simp add: placed_def hint_accepted_def find_vma_def)

lemma placed_fit:
  assumes "gap_fits k mm info a"
    and "a AND (2 ^ PAGE_SHIFT k - 1) = 0"
    and "info_length info = len"
    and "mmap_min_addr k \<le> low_limit info"
    and "high_limit info \<le> TASK_SIZE k"
  shows "placed k mm a len"
  using assms by (auto simp: placed_def gap_fits_def word_le_nat_alt)

lemma placed_search:
  assumes "vm_unmapped_area k mm info \<noteq> - ENOMEM"
    and "info_length info = len"
    and "mmap_min_addr k \<le> low_limit info"
    and "high_limit info \<le> TASK_SIZE k"
  shows "placed k mm (vm_unmapped_area k mm info) len"
  using vm_unmapped_area_cases [of k mm info] assms by (auto intro: placed_fit)

lemma EINVAL_low:
  assumes "3 \<le> s"
  shows "(- EINVAL) AND (2 ^ s - 1 :: ulong) \<noteq> 0"
proof
  assume z: "(- EINVAL) AND (2 ^ s - 1 :: ulong) = 0"
  have "bit ((- EINVAL) AND (2 ^ s - 1 :: ulong)) 1"
    using assms by (simp add: EINVAL_def pow_minus_one_mask bit_simps)
  with z show False by simp
qed

lemma topdown_searching:
  assumes nf: "flags AND MAP_FIXED = 0"
    and len: "\<not> TASK_SIZE k - mmap_min_addr k < len"
  shows "arch_get_unmapped_area_topdown k mm filp addr len pgoff flags =
           (if addr \<noteq> 0 \<and>
               aligned_hint k filp addr pgoff flags \<le> TASK_SIZE k - len \<and>
               mmap_min_addr k \<le> aligned_hint k filp addr pgoff flags \<and>
               (case find_vma mm (aligned_hint k filp addr pgoff flags) of
                  None \<Rightarrow> True
                | Some vma \<Rightarrow> aligned_hint k filp addr pgoff flags + len \<le> vm_start_gap k vma)
            then (aligned_hint k filp addr pgoff flags, [])
            else if vm_unmapped_area k mm (topdown_request k mm filp len pgoff flags)
                      AND NOT (PAGE_MASK k) \<noteq> 0
            then (vm_unmapped_area k mm (fallback_request k mm filp len pgoff flags),
                  [topdown_request k mm filp len pgoff flags,
                   fallback_request k mm filp len pgoff flags])
            else (vm_unmapped_area k mm (topdown_request k mm filp len pgoff flags),
                  [topdown_request k mm filp len pgoff flags]))"
  unfolding arch_get_unmapped_area_topdown_def Let_def aligned_hint_def fallback_request_def
    topdown_request_def
  using nf len by simp

text \<open>
  The top-down function reaches the gap search, that is, hands at least one request to
  \<open>vm_unmapped_area\<close>, exactly for a request without \<open>MAP_FIXED\<close> that passes the length
  check and whose hint, if any, is not accepted.
\<close>

lemma topdown_reaches_search_iff:
  assumes mn: "mmap_min_addr k \<le> TASK_SIZE k"
  shows "snd (arch_get_unmapped_area_topdown k mm filp addr len pgoff flags) \<noteq> [] \<longleftrightarrow>
           flags AND MAP_FIXED = 0 \<and> \<not> TASK_SIZE k - mmap_min_addr k < len \<and>
           \<not> (addr \<noteq> 0 \<and> hint_accepted k mm (aligned_hint k filp addr pgoff flags) len)"
proof (cases "TASK_SIZE k - mmap_min_addr k < len")
  case True
  then show ?thesis
    by (simp add: arch_get_unmapped_area_topdown_def Let_def)
next
  case len: False
  show ?thesis
  proof (cases "flags AND MAP_FIXED = 0")
    case True
    show ?thesis
      using True len by (simp add: topdown_not_fixed [OF mn True len])
  next
    case False
    with len show ?thesis
      by (simp add: arch_get_unmapped_area_topdown_def Let_def)
  qed
qed

text \<open>The equations that evaluate a placement on concrete numbers.\<close>

lemmas run_search =
  arch_get_unmapped_area_def arch_get_unmapped_area_topdown_def Let_def
  MAP_FIXED_def MAP_SHARED_def VM_UNMAPPED_AREA_TOPDOWN_def ENOMEM_def EINVAL_def
  vm_unmapped_area_def highest_fit_unfold lowest_fit_unfold gap_fits_def vm_start_gap_def
  find_vma_def PAGE_SIZE_def PAGE_MASK_def COLOUR_ALIGN_def PAGE_ALIGN_def
  topdown_request_def fallback_request_def bottomup_request_def

text \<open>
  The top-down function asserts (\<open>VM_BUG_ON\<close>) that a search result with low bits set is
  \<open>-ENOMEM\<close>. The search as modelled keeps the assertion.
\<close>

lemma vm_unmapped_area_failure:
  "vm_unmapped_area k mm info AND NOT (PAGE_MASK k) \<noteq> 0 \<Longrightarrow>
   vm_unmapped_area k mm info = - ENOMEM"
  using vm_unmapped_area_cases [of k mm info] by (auto simp: not_PAGE_MASK)

text \<open>
  The example scenarios of the spec, run on the model: bottom-up, the lowest fit is 0,
  and \<open>0x8000\<close> when that is \<open>mmap_min_addr\<close>; top-down, the search skips the region that
  abuts the base and its guard page and returns the gap below, not \<open>-ENOMEM\<close>.
\<close>

lemma spec_example_bottom_up:
  "fst (arch_get_unmapped_area (spec_example_env 0) spec_example_mm False 0 0x1000 0 0) = 0"
  "fst (arch_get_unmapped_area (spec_example_env 0x8000) spec_example_mm False 0 0x1000 0 0)
     = 0x8000"
  by (simp_all add: run_search spec_example_env_def spec_example_mm_def arm_env_def
      one_region_mm_def)

lemma spec_example_top_down:
  "arch_get_unmapped_area_topdown (spec_example_env 0x8000) abutting_mm False 0 0x2000 0 0
     = (0x2FFF9000, [topdown_request (spec_example_env 0x8000) abutting_mm False 0x2000 0 0])"
  by (simp add: run_search spec_example_env_def abutting_mm_def arm_env_def)

section \<open>The gap below the stack\<close>








lemma arch_mmap_rnd_page_multiple:
  assumes "PAGE_SHIFT k < 32"
  shows "unat (PAGE_SIZE k) dvd unat (arch_mmap_rnd k r)"
proof -
  have "arch_mmap_rnd k r AND (2 ^ PAGE_SHIFT k - 1) = 0"
    by (simp only: arch_mmap_rnd_def Let_def push_bit_low)
  then have "unat (arch_mmap_rnd k r) mod 2 ^ PAGE_SHIFT k = 0"
    using unat_and_low [of "arch_mmap_rnd k r" "PAGE_SHIFT k"] by simp
  then show ?thesis
    unfolding PAGE_SIZE_pow unat_pow32 [OF assms] by (simp add: mod_eq_0_iff_dvd)
qed


section \<open>Colour alignment\<close>

text \<open>
  C4 (as stated, refuted). The claim says that \<open>COLOUR_ALIGN\<close> is idempotent for every
  address and page offset. With four pages to \<open>SHMLBA\<close>, address 0 and page offset 1 the
  first application gives \<open>0x1000\<close> and the second \<open>0x5000\<close>.
\<close>

theorem COLOUR_ALIGN_not_idempotent:
  "COLOUR_ALIGN arm_env (COLOUR_ALIGN arm_env 0 1) 1 \<noteq> COLOUR_ALIGN arm_env 0 1"
  by (simp add: COLOUR_ALIGN_def arm_env_def)

text \<open>
  C4 (amended). For \<open>SHMLBA\<close> a power of two, a second application of \<open>COLOUR_ALIGN\<close> with
  the same page offset adds \<open>SHMLBA\<close> when the colour of the offset,
  \<open>(pgoff << PAGE_SHIFT) & (SHMLBA - 1)\<close>, is not zero, and nothing when it is zero: the
  macro is idempotent exactly for the page offsets of colour zero. This holds in wrapping
  32-bit arithmetic, for every address.
\<close>

theorem COLOUR_ALIGN_twice:
  assumes S: "SHMLBA k = 2 ^ j" and j: "j < 32"
  shows "COLOUR_ALIGN k (COLOUR_ALIGN k a pgoff) pgoff =
           COLOUR_ALIGN k a pgoff +
           (if push_bit (PAGE_SHIFT k) pgoff AND (SHMLBA k - 1) = 0 then 0 else SHMLBA k)
         \<and> (COLOUR_ALIGN k (COLOUR_ALIGN k a pgoff) pgoff = COLOUR_ALIGN k a pgoff \<longleftrightarrow>
              push_bit (PAGE_SHIFT k) pgoff AND (SHMLBA k - 1) = 0)"
proof -
  define R where "R = (a + 2 ^ j - 1) AND NOT (2 ^ j - 1 :: 32 word)"
  define c where "c = push_bit (PAGE_SHIFT k) pgoff AND (2 ^ j - 1 :: 32 word)"
  have R0: "R AND (2 ^ j - 1) = 0"
    unfolding R_def by (rule round_down_low_zero)
  have c: "unat c < 2 ^ j"
    unfolding c_def by (simp add: unat_and_low)
  have "R + c + 2 ^ j - 1 = R + (c + (2 ^ j - 1))"
    by (simp add: algebra_simps)
  then have "(R + c + 2 ^ j - 1) AND NOT (2 ^ j - 1) = (R + (c + (2 ^ j - 1))) AND NOT (2 ^ j - 1)"
    by (simp only:)
  also have "\<dots> = R + ((c + (2 ^ j - 1)) AND NOT (2 ^ j - 1))"
    using j R0 by (rule and_not_low_add_multiple)
  also have "\<dots> = R + (if c = 0 then 0 else 2 ^ j)"
    by (simp only: colour_second_round [OF j c])
  finally have step: "(R + c + 2 ^ j - 1) AND NOT (2 ^ j - 1) = R + (if c = 0 then 0 else 2 ^ j)" .
  have eq: "COLOUR_ALIGN k (COLOUR_ALIGN k a pgoff) pgoff =
          COLOUR_ALIGN k a pgoff + (if c = 0 then 0 else 2 ^ j)"
    unfolding COLOUR_ALIGN_def S R_def [symmetric] c_def [symmetric]
    by (simp only: step) simp
  have nz: "(2 ^ j :: 32 word) \<noteq> 0"
    using unat_pow32 [OF j] by (metis unat_0 power_not_zero zero_neq_numeral)
  from eq nz show ?thesis
    unfolding c_def S by simp
qed

theorem COLOUR_ALIGN_twice_witness:
  "COLOUR_ALIGN arm_env (COLOUR_ALIGN arm_env 0x12345 4) 4 = COLOUR_ALIGN arm_env 0x12345 4
   \<and> COLOUR_ALIGN arm_env (COLOUR_ALIGN arm_env 0x12345 5) 5 = COLOUR_ALIGN arm_env 0x12345 5 + 0x4000"
proof -
  have S: "SHMLBA arm_env = 2 ^ 14" by (simp add: arm_env_def)
  have j: "(14::nat) < 32" by simp
  show ?thesis
    using COLOUR_ALIGN_twice [OF S j, where a = "0x12345" and pgoff = 4]
      COLOUR_ALIGN_twice [OF S j, where a = "0x12345" and pgoff = 5]
    by (simp add: arm_env_def)
qed

text \<open>
  C10. For \<open>SHMLBA\<close> a power of two, \<open>COLOUR_ALIGN(a, o)\<close> is congruent to
  \<open>o << PAGE_SHIFT\<close> modulo \<open>SHMLBA\<close>; it is a multiple of the page size whenever the page
  size divides \<open>SHMLBA\<close>; and it is at least \<open>a\<close> whenever \<open>a + SHMLBA - 1\<close> does not
  overflow. The first two hold in wrapping arithmetic as well.
\<close>

theorem COLOUR_ALIGN_congruent:
  assumes S: "SHMLBA k = 2 ^ j" and j: "j < 32"
  shows "unat (COLOUR_ALIGN k a pgoff) mod unat (SHMLBA k) =
           unat (push_bit (PAGE_SHIFT k) pgoff) mod unat (SHMLBA k)
         \<and> (unat (PAGE_SIZE k) dvd unat (SHMLBA k) \<longrightarrow>
              unat (COLOUR_ALIGN k a pgoff) mod unat (PAGE_SIZE k) = 0)
         \<and> (unat a + (unat (SHMLBA k) - 1) < 2 ^ 32 \<longrightarrow> a \<le> COLOUR_ALIGN k a pgoff)"
proof -
  define R where "R = (a + 2 ^ j - 1) AND NOT (2 ^ j - 1 :: 32 word)"
  define p where "p = (push_bit (PAGE_SHIFT k) pgoff :: 32 word)"
  define c where "c = p AND (2 ^ j - 1 :: 32 word)"
  have CA: "COLOUR_ALIGN k a pgoff = R + c"
    by (simp only: COLOUR_ALIGN_def S R_def c_def p_def)
  have uS: "unat (SHMLBA k) = 2 ^ j"
    unfolding S using j by (rule unat_pow32)
  have R0: "R AND (2 ^ j - 1) = 0"
    unfolding R_def by (rule round_down_low_zero)
  have c: "unat c < 2 ^ j"
    unfolding c_def by (simp add: unat_and_low)
  have sum: "unat (R + c) = unat R + unat c"
  proof -
    have "unat R + 2 ^ j \<le> 2 ^ 32"
      unfolding R_def using j by (rule unat_round_down_room)
    with c have "unat R + unat c < 2 ^ 32" by simp
    then show ?thesis by (simp add: unat_word_ariths)
  qed
  have one: "unat (R + c) mod 2 ^ j = unat p mod 2 ^ j"
  proof -
    have "unat ((R + c) AND (2 ^ j - 1)) = unat (c AND (2 ^ j - 1))"
      by (simp only: and_low_add_multiple [OF j R0])
    then show ?thesis
      by (simp add: unat_and_low c_def)
  qed
  have two: "unat (R + c) mod unat (PAGE_SIZE k) = 0" if dv: "unat (PAGE_SIZE k) dvd unat (SHMLBA k)"
  proof -
    let ?s = "PAGE_SHIFT k"
    have s32: "?s < 32"
    proof (rule ccontr)
      assume "\<not> ?s < 32"
      then have "PAGE_SIZE k = 0"
        by (simp add: PAGE_SIZE_def push_bit_eq_mult)
      with dv uS show False by simp
    qed
    have uP: "unat (PAGE_SIZE k) = 2 ^ ?s"
      using unat_pow32 [OF s32] by (simp add: PAGE_SIZE_def push_bit_eq_mult)
    have sj: "?s \<le> j"
      using dv unfolding uP uS by (rule power_dvd_imp_le) simp
    have Rl: "R AND (2 ^ ?s - 1) = 0"
      unfolding R_def using sj by (auto simp: bit_eq_iff bit_simps pow_minus_one_mask)
    have cl: "c AND (2 ^ ?s - 1) = 0"
      unfolding c_def p_def by (auto simp: bit_eq_iff bit_simps pow_minus_one_mask)
    have "unat ((R + c) AND (2 ^ ?s - 1)) = 0"
      by (simp only: and_low_add_multiple [OF s32 Rl] cl) simp
    then show ?thesis
      by (simp only: uP unat_and_low)
  qed
  have three: "a \<le> R + c" if no: "unat a + (unat (SHMLBA k) - 1) < 2 ^ 32"
  proof -
    have m: "unat (2 ^ j - 1 :: 32 word) = 2 ^ j - 1"
      using j by (rule unat_low_mask)
    have "unat (a + (2 ^ j - 1)) = unat a + (2 ^ j - 1)"
      using no unfolding uS by (simp add: unat_word_ariths m)
    then have uR: "unat R = (unat a + (2 ^ j - 1)) - (unat a + (2 ^ j - 1)) mod 2 ^ j"
      unfolding R_def by (simp only: plus_minus_one_assoc unat_and_not_low)
    have "unat a \<le> unat R"
      unfolding uR by (rule round_down_ge) simp
    then show ?thesis
      by (simp add: word_le_nat_alt sum)
  qed
  from one two three show ?thesis
    unfolding CA uS p_def by blast
qed

theorem COLOUR_ALIGN_congruent_witness:
  "unat (COLOUR_ALIGN arm_env 0x12345 5) mod 0x4000 = 0x1000
   \<and> unat (COLOUR_ALIGN arm_env 0x12345 5) mod 0x1000 = 0
   \<and> 0x12345 \<le> COLOUR_ALIGN arm_env 0x12345 5"
proof -
  have S: "SHMLBA arm_env = 2 ^ 14" by (simp add: arm_env_def)
  have j: "(14::nat) < 32" by simp
  show ?thesis
    using COLOUR_ALIGN_congruent [OF S j, where a = "0x12345" and pgoff = 5]
    by (simp add: arm_env_def PAGE_SIZE_def)
qed

section \<open>Layout policy: theorems\<close>



text \<open>
  The premise on the randomization value is needed: for a value that is not a page
  multiple, which no caller passes, the truncation inside \<open>MAX_GAP\<close> can move the base by
  a page.
\<close>

lemma mmap_base_off_page_rnd:
  "int (unat (mmap_base arm_env \<lparr>personality = 0, task_flags = 0, rlimit_stack = 0xF0000000\<rparr> 1366))
     \<noteq> spec_compute_topdown_base (int (unat (PAGE_SIZE arm_env))) (int (unat (TASK_SIZE arm_env)))
          (int (unat (0xF0000000 :: ulong))) 1366"
  by (simp add: arm_env_def MAX_GAP_def mmap_base_def MIN_GAP_def PAGE_ALIGN_def PAGE_SIZE_def
      PAGE_MASK_def spec_compute_topdown_base_def spec_compute_gap_def)

text \<open>
  C8. \<open>arch_pick_mmap_layout\<close> chooses the legacy layout exactly when the personality has
  \<open>ADDR_COMPAT_LAYOUT\<close>, or the stack limit is \<open>RLIM_INFINITY\<close>, or
  \<open>sysctl_legacy_va_layout\<close> is set. Legacy: the base is \<open>TASK_UNMAPPED_BASE\<close> plus the
  random factor and the placement function is the bottom-up one. Otherwise: the base is
  \<open>mmap_base\<close> of the random factor and the placement function is the top-down one. The
  random factor is \<open>arch_mmap_rnd\<close> under \<open>PF_RANDOMIZE\<close> and 0 without it.
\<close>

theorem arch_pick_mmap_layout_choice:
  "arch_pick_mmap_layout k current r mm =
     (let random_factor =
            (if task_flags current AND PF_RANDOMIZE \<noteq> 0 then arch_mmap_rnd k r else 0)
      in if personality current AND ADDR_COMPAT_LAYOUT \<noteq> 0 \<or>
            rlimit_stack current = RLIM_INFINITY \<or>
            sysctl_legacy_va_layout k \<noteq> 0
         then mm\<lparr>mm_mmap_base := TASK_UNMAPPED_BASE k + random_factor,
                 mm_get_unmapped_area := Bottom_up\<rparr>
         else mm\<lparr>mm_mmap_base := mmap_base k current random_factor,
                 mm_get_unmapped_area := Top_down\<rparr>)
   \<and> (mm_get_unmapped_area (arch_pick_mmap_layout k current r mm) = Bottom_up \<longleftrightarrow>
        personality current AND ADDR_COMPAT_LAYOUT \<noteq> 0 \<or>
        rlimit_stack current = RLIM_INFINITY \<or>
        sysctl_legacy_va_layout k \<noteq> 0)"
  by (simp add: arch_pick_mmap_layout_def mmap_is_legacy_def Let_def)

theorem arch_pick_mmap_layout_choice_witness:
  "arch_pick_mmap_layout arm_env
     \<lparr>personality = 0, task_flags = PF_RANDOMIZE, rlimit_stack = RLIM_INFINITY\<rparr> 0x5A one_region_mm
   = one_region_mm\<lparr>mm_mmap_base := 0x4005A000, mm_get_unmapped_area := Bottom_up\<rparr>
   \<and> arch_pick_mmap_layout arm_env
     \<lparr>personality = 0, task_flags = PF_RANDOMIZE, rlimit_stack = 0x800000\<rparr> 0x5A one_region_mm
   = one_region_mm\<lparr>mm_mmap_base := 0xB6FA6000, mm_get_unmapped_area := Top_down\<rparr>"
  using arch_pick_mmap_layout_choice [of arm_env
      "\<lparr>personality = 0, task_flags = PF_RANDOMIZE, rlimit_stack = RLIM_INFINITY\<rparr>" "0x5A" one_region_mm]
    arch_pick_mmap_layout_choice [of arm_env
      "\<lparr>personality = 0, task_flags = PF_RANDOMIZE, rlimit_stack = 0x800000\<rparr>" "0x5A" one_region_mm]
  by (simp add: arm_env_def PF_RANDOMIZE_def ADDR_COMPAT_LAYOUT_def RLIM_INFINITY_def
      arch_mmap_rnd_def mmap_base_def MIN_GAP_def MAX_GAP_def PAGE_ALIGN_def PAGE_SIZE_def
      PAGE_MASK_def Let_def)

section \<open>The gap finder: requests that never reach the search\<close>

text \<open>
  C3 (as stated, refuted). The claim rejects a FIXED request whenever colour alignment
  is required, and otherwise returns the address with no further check. With aliasing
  caches, a file-backed private mapping requires alignment in the spec's sense, yet both
  functions return its misaligned FIXED address \<open>0x1000\<close>: the test of the file looks at
  \<open>MAP_SHARED\<close> alone. And the top-down function answers \<open>-ENOMEM\<close> to a FIXED request that
  is too long, before it looks at the flag.
\<close>

theorem fixed_request_wrongly_rejected:
  "spec_requires_alignment True False (cache_is_vipt_aliasing arm_env) \<and>
   unat (0x1000 :: ulong) mod unat (SHMLBA arm_env) \<noteq> (0 * 2 ^ PAGE_SHIFT arm_env) mod unat (SHMLBA arm_env) \<and>
   arch_get_unmapped_area arm_env one_region_mm True 0x1000 0x1000 0 MAP_FIXED = (0x1000, []) \<and>
   arch_get_unmapped_area_topdown arm_env one_region_mm True 0x1000 0x1000 0 MAP_FIXED = (0x1000, []) \<and>
   arch_get_unmapped_area_topdown arm_env one_region_mm False 0x10000 0xC0000000 0 MAP_FIXED
     = (- ENOMEM, [])"
  by (simp add: spec_requires_alignment_def arm_env_def arch_get_unmapped_area_def
      arch_get_unmapped_area_topdown_def MAP_FIXED_def MAP_SHARED_def Let_def)

text \<open>
  C3 (amended). For a request with \<open>MAP_FIXED\<close>, and \<open>SHMLBA\<close> a power of two:
  \<open>arch_get_unmapped_area\<close> answers \<open>-EINVAL\<close> when the caches alias, the mapping is shared
  (\<open>MAP_SHARED\<close>; a file-backed private mapping is not tested) and the address is not
  congruent to \<open>pgoff * PAGE_SIZE\<close> modulo \<open>SHMLBA\<close>; otherwise it returns the address
  unchanged, without a gap search or any look at the regions.
  \<open>arch_get_unmapped_area_topdown\<close> does the same once the length check has passed, and
  answers \<open>-ENOMEM\<close> when the length exceeds \<open>TASK_SIZE - mmap_min_addr\<close>.
\<close>

theorem fixed_request:
  assumes fixed: "flags AND MAP_FIXED \<noteq> 0"
    and S: "SHMLBA k = 2 ^ j" and j: "j < 32"
  shows "arch_get_unmapped_area k mm filp addr len pgoff flags =
           (if cache_is_vipt_aliasing k \<and> flags AND MAP_SHARED \<noteq> 0 \<and>
               unat addr mod unat (SHMLBA k) \<noteq> (unat pgoff * 2 ^ PAGE_SHIFT k) mod unat (SHMLBA k)
            then (- EINVAL, []) else (addr, []))
         \<and> arch_get_unmapped_area_topdown k mm filp addr len pgoff flags =
           (if len > TASK_SIZE k - mmap_min_addr k then (- ENOMEM, [])
            else if cache_is_vipt_aliasing k \<and> flags AND MAP_SHARED \<noteq> 0 \<and>
               unat addr mod unat (SHMLBA k) \<noteq> (unat pgoff * 2 ^ PAGE_SHIFT k) mod unat (SHMLBA k)
            then (- EINVAL, []) else (addr, []))"
proof -
  have uS: "unat (SHMLBA k) = 2 ^ j"
    unfolding S using j by (rule unat_pow32)
  have c: "(addr - push_bit (PAGE_SHIFT k) pgoff) AND (SHMLBA k - 1) \<noteq> 0 \<longleftrightarrow>
           unat addr mod unat (SHMLBA k) \<noteq> (unat pgoff * 2 ^ PAGE_SHIFT k) mod unat (SHMLBA k)"
    by (simp only: uS) (simp only: S sub_and_low_zero_iff [OF j] unat_push_bit_mod [OF j])
  show ?thesis
    using fixed
    by (simp add: arch_get_unmapped_area_def arch_get_unmapped_area_topdown_def Let_def c)
qed

theorem fixed_request_witness:
  "arch_get_unmapped_area arm_env one_region_mm False 0x10001000 0x2000 2 (MAP_FIXED OR MAP_SHARED)
     = (- EINVAL, [])
   \<and> arch_get_unmapped_area_topdown arm_env one_region_mm False 0x10002000 0x2000 2
        (MAP_FIXED OR MAP_SHARED) = (0x10002000, [])"
proof -
  have f: "(MAP_FIXED OR MAP_SHARED) AND MAP_FIXED \<noteq> 0"
    by (simp add: MAP_FIXED_def MAP_SHARED_def)
  have S: "SHMLBA arm_env = 2 ^ 14" by (simp add: arm_env_def)
  have j: "(14::nat) < 32" by simp
  show ?thesis
    using fixed_request [OF f S j, where mm = one_region_mm and filp = False
        and addr = "0x10001000" and len = "0x2000" and pgoff = 2]
      fixed_request [OF f S j, where mm = one_region_mm and filp = False
        and addr = "0x10002000" and len = "0x2000" and pgoff = 2]
    by (simp add: arm_env_def MAP_FIXED_def MAP_SHARED_def)
qed

text \<open>
  C5 (as stated, refuted). The claim puts the length check before the FIXED handling in
  both functions. \<open>arch_get_unmapped_area\<close> handles \<open>MAP_FIXED\<close> first: a FIXED request
  longer than \<open>TASK_SIZE - mmap_min_addr\<close> gets its address back, not \<open>-ENOMEM\<close>.
\<close>

theorem length_check_after_fixed:
  "TASK_SIZE arm_env - mmap_min_addr arm_env < 0xC0000000 \<and>
   arch_get_unmapped_area arm_env one_region_mm False 0x10000 0xC0000000 0 MAP_FIXED
     = (0x10000, []) \<and>
   (0x10000 :: ulong) \<noteq> - ENOMEM"
  by (simp add: arm_env_def arch_get_unmapped_area_def MAP_FIXED_def MAP_SHARED_def Let_def
      ENOMEM_def)

text \<open>
  C5 (amended). For a request longer than \<open>TASK_SIZE - mmap_min_addr\<close>:
  \<open>arch_get_unmapped_area_topdown\<close> answers \<open>-ENOMEM\<close> whatever the flags, the length check
  being its first; \<open>arch_get_unmapped_area\<close> answers \<open>-ENOMEM\<close> when \<open>MAP_FIXED\<close> is not
  set, and when it is set the FIXED handling, which comes first there, decides.
\<close>

theorem length_check:
  assumes "len > TASK_SIZE k - mmap_min_addr k"
  shows "arch_get_unmapped_area_topdown k mm filp addr len pgoff flags = (- ENOMEM, [])
         \<and> arch_get_unmapped_area k mm filp addr len pgoff flags =
             (if flags AND MAP_FIXED = 0 then (- ENOMEM, [])
              else if cache_is_vipt_aliasing k \<and> flags AND MAP_SHARED \<noteq> 0 \<and>
                      (addr - push_bit (PAGE_SHIFT k) pgoff) AND (SHMLBA k - 1) \<noteq> 0
                   then (- EINVAL, []) else (addr, []))"
  using assms
  by (simp add: arch_get_unmapped_area_def arch_get_unmapped_area_topdown_def Let_def)

theorem length_check_witness:
  "TASK_SIZE arm_env - mmap_min_addr arm_env < 0xC0000000 \<and>
   arch_get_unmapped_area_topdown arm_env one_region_mm False 0x10000 0xC0000000 0 MAP_FIXED
     = (- ENOMEM, []) \<and>
   arch_get_unmapped_area arm_env one_region_mm False 0x10000 0xC0000000 0 0 = (- ENOMEM, [])"
proof -
  have l: "TASK_SIZE arm_env - mmap_min_addr arm_env < 0xC0000000"
    by (simp add: arm_env_def)
  show ?thesis
    using l length_check [OF l, where mm = one_region_mm and filp = False and addr = "0x10000"
        and pgoff = 0 and flags = MAP_FIXED]
      length_check [OF l, where mm = one_region_mm and filp = False and addr = "0x10000"
        and pgoff = 0 and flags = 0]
    by simp
qed

section \<open>The gap finder: the hint path\<close>

text \<open>
  C6 (as stated, refuted). The claim returns the hint when no mapped region starts at or
  after it. A hint inside a region has no region starting at or after it, and satisfies
  the two bounds, yet neither function returns it: \<open>find_vma\<close> finds the region that
  contains the hint, and both functions go on to the gap search.
\<close>

theorem hint_inside_region:
  "PAGE_ALIGN arm_env 0x10004000 = 0x10004000 \<and>
   (0x10004000 :: ulong) \<le> TASK_SIZE arm_env - 0x1000 \<and>
   mmap_min_addr arm_env \<le> 0x10004000 \<and>
   spec_next_region_clear arm_env wide_region_mm 0x10004000 0x1000 \<and>
   arch_get_unmapped_area arm_env wide_region_mm False 0x10004000 0x1000 0 0
     = (0x40000000, [bottomup_request arm_env wide_region_mm False 0x1000 0 0]) \<and>
   arch_get_unmapped_area_topdown arm_env wide_region_mm False 0x10004000 0x1000 0 0
     = (0x3FFFF000, [topdown_request arm_env wide_region_mm False 0x1000 0 0])"
  by (simp add: run_search arm_env_def wide_region_mm_def spec_next_region_clear_def)

text \<open>
  C6 (amended). For a request without \<open>MAP_FIXED\<close> and with a hint other than 0, let \<open>h\<close>
  be the hint colour-aligned when alignment is required (aliasing caches and a file-backed
  or shared mapping) and page-aligned otherwise. Each of the two functions returns \<open>h\<close>
  without any gap search exactly when \<open>h + len \<le> TASK_SIZE\<close>, \<open>h \<ge> mmap_min_addr\<close>, and
  either no region ends above \<open>h\<close> (none contains or follows it) or the first such region
  has its guard-adjusted start at or above \<open>h + len\<close>.
\<close>

theorem hint_path:
  assumes env: "3 \<le> PAGE_SHIFT k" "PAGE_SHIFT k \<le> j" "j < 32" "SHMLBA k = 2 ^ j"
    and mn: "mmap_min_addr k \<le> TASK_SIZE k"
    and nf: "flags AND MAP_FIXED = 0"
    and a0: "addr \<noteq> 0"
  shows "let h = (if cache_is_vipt_aliasing k \<and> (filp \<or> flags AND MAP_SHARED \<noteq> 0)
                  then COLOUR_ALIGN k addr pgoff else PAGE_ALIGN k addr)
         in (arch_get_unmapped_area k mm filp addr len pgoff flags = (h, []) \<longleftrightarrow>
               hint_accepted k mm h len)
          \<and> (arch_get_unmapped_area_topdown k mm filp addr len pgoff flags = (h, []) \<longleftrightarrow>
               hint_accepted k mm h len)"
proof -
  define h where "h = (if cache_is_vipt_aliasing k \<and> (filp \<or> flags AND MAP_SHARED \<noteq> 0)
                       then COLOUR_ALIGN k addr pgoff else PAGE_ALIGN k addr)"
  have "h AND (2 ^ PAGE_SHIFT k - 1) = 0"
    unfolding h_def using COLOUR_ALIGN_low [OF env(4) env(2) env(3)] PAGE_ALIGN_low by simp
  then have hE: "h \<noteq> - ENOMEM"
    using env(1) by (rule aligned_not_ENOMEM [rotated])
  have "(arch_get_unmapped_area k mm filp addr len pgoff flags = (h, []) \<longleftrightarrow>
               hint_accepted k mm h len)
          \<and> (arch_get_unmapped_area_topdown k mm filp addr len pgoff flags = (h, []) \<longleftrightarrow>
               hint_accepted k mm h len)"
  proof (cases "TASK_SIZE k - mmap_min_addr k < len")
    case True
    then have "\<not> hint_accepted k mm h len"
      unfolding hint_accepted_def using hint_too_long [of h len "TASK_SIZE k" "mmap_min_addr k"]
      by blast
    with True hE nf show ?thesis
      by (auto simp: arch_get_unmapped_area_def arch_get_unmapped_area_topdown_def Let_def)
  next
    case False
    note t = hint_test [OF mn False, of h mm]
    show ?thesis
    proof (cases "hint_accepted k mm h len")
      case True
      with t False nf a0 show ?thesis
        unfolding arch_get_unmapped_area_def arch_get_unmapped_area_topdown_def Let_def
          h_def [symmetric]
        by simp
    next
      case no: False
      with t False nf a0 show ?thesis
        unfolding arch_get_unmapped_area_def arch_get_unmapped_area_topdown_def Let_def
          h_def [symmetric]
        by (simp split: if_splits)
    qed
  qed
  then show ?thesis
    unfolding h_def Let_def .
qed

theorem hint_path_witness:
  "arch_get_unmapped_area arm_env one_region_mm True 0x20000800 0x2000 3 0 = (0x20007000, []) \<and>
   arch_get_unmapped_area_topdown arm_env one_region_mm True 0x20000800 0x2000 3 0
     = (0x20007000, []) \<and>
   arch_get_unmapped_area arm_env wide_region_mm False 0x10004000 0x1000 0 0
     \<noteq> (0x10004000, [])"
proof -
  have S: "SHMLBA arm_env = 2 ^ 14" by (simp add: arm_env_def)
  have s: "3 \<le> PAGE_SHIFT arm_env" by (simp add: arm_env_def)
  have sj: "PAGE_SHIFT arm_env \<le> 14" by (simp add: arm_env_def)
  have j: "(14::nat) < 32" by simp
  have mn: "mmap_min_addr arm_env \<le> TASK_SIZE arm_env" by (simp add: arm_env_def)
  have nf: "(0 :: ulong) AND MAP_FIXED = 0" by simp
  have a1: "(0x20000800 :: ulong) \<noteq> 0" by simp
  have a2: "(0x10004000 :: ulong) \<noteq> 0" by simp
  have h1: "hint_accepted arm_env one_region_mm 0x20007000 0x2000"
    by (simp add: hint_accepted_def find_vma_def arm_env_def one_region_mm_def)
  have h2: "\<not> hint_accepted arm_env wide_region_mm 0x10004000 0x1000"
    by (simp add: hint_accepted_def find_vma_def arm_env_def wide_region_mm_def
        vm_start_gap_def PAGE_SIZE_def)
  have c1: "COLOUR_ALIGN arm_env 0x20000800 3 = 0x20007000"
    by (simp add: COLOUR_ALIGN_def arm_env_def)
  have c2: "PAGE_ALIGN arm_env 0x10004000 = 0x10004000"
    by (simp add: PAGE_ALIGN_def PAGE_SIZE_def PAGE_MASK_def arm_env_def)
  have al: "cache_is_vipt_aliasing arm_env" by (simp add: arm_env_def)
  from hint_path [OF s sj j S mn nf a1, where filp = True and pgoff = 3 and mm = one_region_mm
      and len = "0x2000"] h1 c1 al
  have "arch_get_unmapped_area arm_env one_region_mm True 0x20000800 0x2000 3 0 = (0x20007000, []) \<and>
        arch_get_unmapped_area_topdown arm_env one_region_mm True 0x20000800 0x2000 3 0
          = (0x20007000, [])"
    by (simp add: Let_def)
  moreover
  from hint_path [OF s sj j S mn nf a2, where filp = False and pgoff = 0 and mm = wide_region_mm
      and len = "0x1000"] h2 c2
  have "arch_get_unmapped_area arm_env wide_region_mm False 0x10004000 0x1000 0 0
          \<noteq> (0x10004000, [])"
    by (simp add: Let_def MAP_SHARED_def)
  ultimately show ?thesis by simp
qed

section \<open>The gap finder: the invariant of a placement\<close>

text \<open>
  C1 (as stated, refuted). The claim holds the invariant for every request that returns an
  address. A FIXED request gets its address back unchecked: here one that is not
  page-aligned and lies inside the mapped region, from both functions.
\<close>

theorem fixed_placement_overlaps:
  "arch_get_unmapped_area arm_env one_region_mm False 0x10000800 0x1000 0 MAP_FIXED
     = (0x10000800, []) \<and>
   arch_get_unmapped_area_topdown arm_env one_region_mm False 0x10000800 0x1000 0 MAP_FIXED
     = (0x10000800, []) \<and>
   (0x10000800 :: ulong) \<noteq> - ENOMEM \<and> (0x10000800 :: ulong) \<noteq> - EINVAL \<and>
   unat (0x10000800 :: ulong) mod unat (PAGE_SIZE arm_env) \<noteq> 0 \<and>
   \<not> list_all (\<lambda>vma. vm_end vma \<le> 0x10000800 \<or>
                  unat (0x10000800 :: ulong) + unat (0x1000 :: ulong) \<le> unat (vm_start vma))
        (mm_mmap one_region_mm)"
  by (simp add: run_search arm_env_def one_region_mm_def)

text \<open>
  C1 (amended). For a request without \<open>MAP_FIXED\<close>, in an address space whose regions
  are in address order, with \<open>SHMLBA\<close> a power of two not below the page size and
  \<open>mmap_min_addr \<le> TASK_SIZE\<close> (and, for the top-down function,
  \<open>mmap_min_addr \<le> mmap_base \<le> TASK_SIZE\<close>): an address \<open>a\<close> returned by either function,
  other than \<open>-ENOMEM\<close>, is page-aligned, \<open>a \<ge> mmap_min_addr\<close>, \<open>a + len \<le> TASK_SIZE\<close>, and
  every region either ends at or below \<open>a\<close> or has its start, moved down by the one-page
  guard gap, at or above \<open>a + len\<close>.
\<close>

theorem placement_invariant:
  assumes env: "SHMLBA k = 2 ^ j" "PAGE_SHIFT k \<le> j" "j < 32"
    and mn: "mmap_min_addr k \<le> TASK_SIZE k"
    and srt: "sorted_wrt (\<lambda>u v. vm_start u \<le> vm_start v) (mm_mmap mm)"
    and nf: "flags AND MAP_FIXED = 0"
    and res: "a = fst (arch_get_unmapped_area k mm filp addr len pgoff flags) \<or>
              mmap_min_addr k \<le> mm_mmap_base mm \<and> mm_mmap_base mm \<le> TASK_SIZE k \<and>
              a = fst (arch_get_unmapped_area_topdown k mm filp addr len pgoff flags)"
    and ok: "a \<noteq> - ENOMEM"
  shows "unat a mod unat (PAGE_SIZE k) = 0 \<and>
         mmap_min_addr k \<le> a \<and>
         unat a + unat len \<le> unat (TASK_SIZE k) \<and>
         list_all (\<lambda>vma. vm_end vma \<le> a \<or>
                     unat a + unat len \<le> unat (vm_start_gap k vma) \<and>
                     vm_start_gap k vma \<le> vm_start vma)
           (mm_mmap mm)"
proof -
  let ?h = "aligned_hint k filp addr pgoff flags"
  have hl: "?h AND (2 ^ PAGE_SHIFT k - 1) = 0"
    using env by (rule aligned_hint_low)
  have len: "\<not> TASK_SIZE k - mmap_min_addr k < len"
  proof
    assume "TASK_SIZE k - mmap_min_addr k < len"
    with nf res ok show False
      by (auto simp: arch_get_unmapped_area_def arch_get_unmapped_area_topdown_def Let_def)
  qed
  have hint: "placed k mm ?h len" if "hint_accepted k mm ?h len"
    using that srt hl by (rule placed_hint)
  from res have "placed k mm a len"
  proof (elim disjE conjE)
    assume a: "a = fst (arch_get_unmapped_area k mm filp addr len pgoff flags)"
    show ?thesis
    proof (cases "addr \<noteq> 0 \<and> hint_accepted k mm ?h len")
      case True
      with a hint show ?thesis
        by (simp add: bottom_up_not_fixed [OF mn nf len])
    next
      case False
      with a have r: "a = vm_unmapped_area k mm (bottomup_request k mm filp len pgoff flags)"
        by (auto simp: bottom_up_not_fixed [OF mn nf len])
      show ?thesis
        unfolding r
        by (rule placed_search) (use ok r in \<open>simp_all add: bottomup_request_def\<close>)
    qed
  next
    assume b: "mmap_min_addr k \<le> mm_mmap_base mm" "mm_mmap_base mm \<le> TASK_SIZE k"
      and a: "a = fst (arch_get_unmapped_area_topdown k mm filp addr len pgoff flags)"
    show ?thesis
    proof (cases "addr \<noteq> 0 \<and> hint_accepted k mm ?h len")
      case True
      with a hint show ?thesis
        by (simp add: topdown_not_fixed [OF mn nf len])
    next
      case False
      show ?thesis
      proof (cases "vm_unmapped_area k mm (topdown_request k mm filp len pgoff flags)
                      AND NOT (PAGE_MASK k) \<noteq> 0")
        case True
        with False a
        have r: "a = vm_unmapped_area k mm (fallback_request k mm filp len pgoff flags)"
          by (auto simp: topdown_not_fixed [OF mn nf len])
        show ?thesis
          unfolding r
          by (rule placed_search)
            (use ok r b in \<open>simp_all add: fallback_request_def topdown_request_def\<close>)
      next
        case no: False
        with False a
        have r: "a = vm_unmapped_area k mm (topdown_request k mm filp len pgoff flags)"
          by (auto simp: topdown_not_fixed [OF mn nf len])
        show ?thesis
          unfolding r
          by (rule placed_search) (use ok r b in \<open>simp_all add: topdown_request_def\<close>)
      qed
    qed
  qed
  moreover have "unat (PAGE_SIZE k) = 2 ^ PAGE_SHIFT k"
    unfolding PAGE_SIZE_pow by (rule unat_pow32) (use env in simp)
  moreover have "unat a mod 2 ^ PAGE_SHIFT k = 0" if "a AND (2 ^ PAGE_SHIFT k - 1) = 0"
    using that unat_and_low [of a "PAGE_SHIFT k"] by simp
  ultimately show ?thesis
    by (simp add: placed_def vm_start_gap_le list_all_iff)
qed

theorem placement_invariant_witness:
  "fst (arch_get_unmapped_area arm_env one_region_mm False 0 0x1000 0 0) = 0x40000000 \<and>
   fst (arch_get_unmapped_area_topdown arm_env one_region_mm True 0 0x2000 3 0) = 0x3FFFB000 \<and>
   unat (0x3FFFB000 :: ulong) mod unat (PAGE_SIZE arm_env) = 0 \<and>
   mmap_min_addr arm_env \<le> 0x3FFFB000 \<and>
   unat (0x3FFFB000 :: ulong) + unat (0x2000 :: ulong) \<le> unat (TASK_SIZE arm_env) \<and>
   list_all (\<lambda>vma. vm_end vma \<le> 0x3FFFB000 \<or>
               unat (0x3FFFB000 :: ulong) + unat (0x2000 :: ulong)
                 \<le> unat (vm_start_gap arm_env vma) \<and>
               vm_start_gap arm_env vma \<le> vm_start vma)
     (mm_mmap one_region_mm)"
proof -
  have S: "SHMLBA arm_env = 2 ^ 14" by (simp add: arm_env_def)
  have sj: "PAGE_SHIFT arm_env \<le> 14" by (simp add: arm_env_def)
  have j: "(14::nat) < 32" by simp
  have mn: "mmap_min_addr arm_env \<le> TASK_SIZE arm_env" by (simp add: arm_env_def)
  have srt: "sorted_wrt (\<lambda>u v. vm_start u \<le> vm_start v) (mm_mmap one_region_mm)"
    by (simp add: one_region_mm_def)
  have nf: "(0 :: ulong) AND MAP_FIXED = 0" by simp
  have bu: "fst (arch_get_unmapped_area arm_env one_region_mm False 0 0x1000 0 0) = 0x40000000"
    by (simp add: run_search arm_env_def one_region_mm_def)
  have td: "fst (arch_get_unmapped_area_topdown arm_env one_region_mm True 0 0x2000 3 0)
              = 0x3FFFB000"
    by (simp add: run_search arm_env_def one_region_mm_def)
  have res: "(0x3FFFB000 :: ulong)
               = fst (arch_get_unmapped_area arm_env one_region_mm True 0 0x2000 3 0) \<or>
             mmap_min_addr arm_env \<le> mm_mmap_base one_region_mm \<and>
             mm_mmap_base one_region_mm \<le> TASK_SIZE arm_env \<and>
             (0x3FFFB000 :: ulong)
               = fst (arch_get_unmapped_area_topdown arm_env one_region_mm True 0 0x2000 3 0)"
    using td by (simp add: arm_env_def one_region_mm_def)
  have ok: "(0x3FFFB000 :: ulong) \<noteq> - ENOMEM" by (simp add: ENOMEM_def)
  from placement_invariant [OF S sj j mn srt nf res ok] bu td show ?thesis by simp
qed

section \<open>The gap finder: the fallback of the top-down search\<close>

text \<open>
  C2. For every request without \<open>MAP_FIXED\<close> that passes the length check and has no
  hint or a hint that is not accepted (the requests for which
  \<open>arch_get_unmapped_area_topdown\<close> searches at all): when the top-down search over
  \<open>[max(FIRST_USER_ADDRESS, mmap_min_addr), mmap_base)\<close> returns a value with low bits set,
  the function searches a second time, bottom-up over \<open>[mmap_base, TASK_SIZE)\<close>, and
  returns what that search returns, \<open>-ENOMEM\<close> only if the second search fails too; when
  the top-down search returns a page-aligned value, that value is returned and there is
  no second search. In particular, for pages of at least 8 bytes, when no page-aligned
  address fits below \<open>mmap_base\<close> and one fits in \<open>[mmap_base, TASK_SIZE)\<close>, the call returns
  an address, not an error code, that fits the upper range.
\<close>

theorem topdown_fallback:
  assumes mn: "mmap_min_addr k \<le> TASK_SIZE k"
    and nf: "flags AND MAP_FIXED = 0"
    and len: "\<not> TASK_SIZE k - mmap_min_addr k < len"
    and nohint: "addr = 0 \<or> \<not> hint_accepted k mm (aligned_hint k filp addr pgoff flags) len"
  shows "(vm_unmapped_area k mm (topdown_request k mm filp len pgoff flags)
            AND NOT (PAGE_MASK k) \<noteq> 0 \<longrightarrow>
          arch_get_unmapped_area_topdown k mm filp addr len pgoff flags =
            (vm_unmapped_area k mm (fallback_request k mm filp len pgoff flags),
             [topdown_request k mm filp len pgoff flags,
              fallback_request k mm filp len pgoff flags]) \<and>
          info_flags (fallback_request k mm filp len pgoff flags) = 0 \<and>
          low_limit (fallback_request k mm filp len pgoff flags) = mm_mmap_base mm \<and>
          high_limit (fallback_request k mm filp len pgoff flags) = TASK_SIZE k \<and>
          (fst (arch_get_unmapped_area_topdown k mm filp addr len pgoff flags) = - ENOMEM \<longleftrightarrow>
             vm_unmapped_area k mm (fallback_request k mm filp len pgoff flags) = - ENOMEM))
       \<and> (vm_unmapped_area k mm (topdown_request k mm filp len pgoff flags)
            AND NOT (PAGE_MASK k) = 0 \<longrightarrow>
          arch_get_unmapped_area_topdown k mm filp addr len pgoff flags =
            (vm_unmapped_area k mm (topdown_request k mm filp len pgoff flags),
             [topdown_request k mm filp len pgoff flags]))
       \<and> (3 \<le> PAGE_SHIFT k \<and>
          (\<forall>b. b AND (PAGE_SIZE k - 1) = 0 \<longrightarrow>
                 \<not> gap_fits k mm (topdown_request k mm filp len pgoff flags) b) \<and>
          (\<exists>b. b AND (PAGE_SIZE k - 1) = 0 \<and>
                 gap_fits k mm (fallback_request k mm filp len pgoff flags) b) \<longrightarrow>
          (let a = fst (arch_get_unmapped_area_topdown k mm filp addr len pgoff flags)
           in a \<noteq> - ENOMEM \<and> a \<noteq> - EINVAL \<and>
              a AND (PAGE_SIZE k - 1) = 0 \<and>
              mm_mmap_base mm \<le> a \<and>
              unat a + unat len \<le> unat (TASK_SIZE k) \<and>
              gap_fits k mm (fallback_request k mm filp len pgoff flags) a))"
proof -
  let ?td = "topdown_request k mm filp len pgoff flags"
  let ?fb = "fallback_request k mm filp len pgoff flags"
  let ?res = "arch_get_unmapped_area_topdown k mm filp addr len pgoff flags"
  have shape: "?res = (if vm_unmapped_area k mm ?td AND NOT (PAGE_MASK k) \<noteq> 0
                       then (vm_unmapped_area k mm ?fb, [?td, ?fb])
                       else (vm_unmapped_area k mm ?td, [?td]))"
    using nohint by (auto simp: topdown_not_fixed [OF mn nf len])
  have A: "?res = (vm_unmapped_area k mm ?fb, [?td, ?fb])"
    if "vm_unmapped_area k mm ?td AND NOT (PAGE_MASK k) \<noteq> 0"
    using that by (simp add: shape)
  have A': "?res = (vm_unmapped_area k mm ?td, [?td])"
    if "vm_unmapped_area k mm ?td AND NOT (PAGE_MASK k) = 0"
    using that by (simp add: shape)
  have B: "vm_unmapped_area k mm ?fb \<noteq> - ENOMEM \<and> vm_unmapped_area k mm ?fb \<noteq> - EINVAL \<and>
           vm_unmapped_area k mm ?fb AND (PAGE_SIZE k - 1) = 0 \<and>
           mm_mmap_base mm \<le> vm_unmapped_area k mm ?fb \<and>
           unat (vm_unmapped_area k mm ?fb) + unat len \<le> unat (TASK_SIZE k) \<and>
           gap_fits k mm ?fb (vm_unmapped_area k mm ?fb) \<and>
           vm_unmapped_area k mm ?td AND NOT (PAGE_MASK k) \<noteq> 0"
    if s: "3 \<le> PAGE_SHIFT k"
      and none: "\<forall>b. b AND (PAGE_SIZE k - 1) = 0 \<longrightarrow> \<not> gap_fits k mm ?td b"
      and some: "\<exists>b. b AND (PAGE_SIZE k - 1) = 0 \<and> gap_fits k mm ?fb b"
  proof -
    from none have "vm_unmapped_area k mm ?td = - ENOMEM"
      unfolding PAGE_SIZE_pow by (rule vm_unmapped_area_fails)
    then have f: "vm_unmapped_area k mm ?td AND NOT (PAGE_MASK k) \<noteq> 0"
      using ENOMEM_low [OF s] by (simp add: not_PAGE_MASK)
    from some obtain b where "b AND (2 ^ PAGE_SHIFT k - 1) = 0" "gap_fits k mm ?fb b"
      unfolding PAGE_SIZE_pow by blast
    then have r: "vm_unmapped_area k mm ?fb AND (2 ^ PAGE_SHIFT k - 1) = 0"
      "gap_fits k mm ?fb (vm_unmapped_area k mm ?fb)"
      using vm_unmapped_area_finds by blast+
    from r(1) have "vm_unmapped_area k mm ?fb \<noteq> - ENOMEM" "vm_unmapped_area k mm ?fb \<noteq> - EINVAL"
      using ENOMEM_low [OF s] EINVAL_low [OF s] by auto
    moreover from r(2) have "mm_mmap_base mm \<le> vm_unmapped_area k mm ?fb"
      "unat (vm_unmapped_area k mm ?fb) + unat len \<le> unat (TASK_SIZE k)"
      by (simp_all add: gap_fits_def fallback_request_def topdown_request_def)
    ultimately show ?thesis
      using r f by (simp add: PAGE_SIZE_pow)
  qed
  show ?thesis
  proof (intro conjI impI)
    assume "3 \<le> PAGE_SHIFT k \<and>
          (\<forall>b. b AND (PAGE_SIZE k - 1) = 0 \<longrightarrow> \<not> gap_fits k mm ?td b) \<and>
          (\<exists>b. b AND (PAGE_SIZE k - 1) = 0 \<and> gap_fits k mm ?fb b)"
    then have b: "vm_unmapped_area k mm ?fb \<noteq> - ENOMEM \<and> vm_unmapped_area k mm ?fb \<noteq> - EINVAL \<and>
           vm_unmapped_area k mm ?fb AND (PAGE_SIZE k - 1) = 0 \<and>
           mm_mmap_base mm \<le> vm_unmapped_area k mm ?fb \<and>
           unat (vm_unmapped_area k mm ?fb) + unat len \<le> unat (TASK_SIZE k) \<and>
           gap_fits k mm ?fb (vm_unmapped_area k mm ?fb) \<and>
           vm_unmapped_area k mm ?td AND NOT (PAGE_MASK k) \<noteq> 0"
      using B by blast
    then have "?res = (vm_unmapped_area k mm ?fb, [?td, ?fb])"
      using A by blast
    with b show "let a = fst ?res
           in a \<noteq> - ENOMEM \<and> a \<noteq> - EINVAL \<and>
              a AND (PAGE_SIZE k - 1) = 0 \<and>
              mm_mmap_base mm \<le> a \<and>
              unat a + unat len \<le> unat (TASK_SIZE k) \<and>
              gap_fits k mm ?fb a"
      by (simp add: Let_def)
  qed (simp_all add: A A' fallback_request_def)
qed

theorem topdown_fallback_witness:
  "arch_get_unmapped_area_topdown arm_env full_below_mm False 0 0x1000 0 0 =
     (0x10000, [topdown_request arm_env full_below_mm False 0x1000 0 0,
                fallback_request arm_env full_below_mm False 0x1000 0 0]) \<and>
   arch_get_unmapped_area_topdown arm_env full_below_mm False 0x8000 0x1000 0 0 =
     (0x10000, [topdown_request arm_env full_below_mm False 0x1000 0 0,
                fallback_request arm_env full_below_mm False 0x1000 0 0]) \<and>
   vm_unmapped_area arm_env full_below_mm (topdown_request arm_env full_below_mm False 0x1000 0 0)
     = - ENOMEM \<and>
   mm_mmap_base full_below_mm \<le> 0x10000 \<and>
   gap_fits arm_env full_below_mm (fallback_request arm_env full_below_mm False 0x1000 0 0) 0x10000"
proof -
  let ?td = "topdown_request arm_env full_below_mm False 0x1000 0 0"
  let ?fb = "fallback_request arm_env full_below_mm False 0x1000 0 0"
  have mn: "mmap_min_addr arm_env \<le> TASK_SIZE arm_env" by (simp add: arm_env_def)
  have nf: "(0 :: ulong) AND MAP_FIXED = 0" by simp
  have len: "\<not> TASK_SIZE arm_env - mmap_min_addr arm_env < 0x1000" by (simp add: arm_env_def)
  have h0: "(0 :: ulong) = 0 \<or>
            \<not> hint_accepted arm_env full_below_mm (aligned_hint arm_env False 0 0 0) 0x1000"
    by simp
  have h1: "(0x8000 :: ulong) = 0 \<or>
            \<not> hint_accepted arm_env full_below_mm (aligned_hint arm_env False 0x8000 0 0) 0x1000"
    by (simp add: hint_accepted_def aligned_hint_def find_vma_def vm_start_gap_def PAGE_ALIGN_def
        PAGE_SIZE_def PAGE_MASK_def MAP_SHARED_def arm_env_def full_below_mm_def)
  have td: "vm_unmapped_area arm_env full_below_mm ?td = - ENOMEM"
    by (simp add: run_search arm_env_def full_below_mm_def)
  then have failed: "vm_unmapped_area arm_env full_below_mm ?td AND NOT (PAGE_MASK arm_env) \<noteq> 0"
    by (simp add: ENOMEM_def PAGE_MASK_def PAGE_SIZE_def arm_env_def)
  have fb: "vm_unmapped_area arm_env full_below_mm ?fb = 0x10000"
    by (simp add: run_search arm_env_def full_below_mm_def)
  have s: "3 \<le> PAGE_SHIFT arm_env" by (simp add: arm_env_def)
  have none: "\<forall>b. b AND (PAGE_SIZE arm_env - 1) = 0 \<longrightarrow> \<not> gap_fits arm_env full_below_mm ?td b"
    by (auto simp: gap_fits_def topdown_request_def arm_env_def full_below_mm_def
        vm_start_gap_def PAGE_SIZE_def word_le_nat_alt)
  have fits: "(0x10000 :: ulong) AND (PAGE_SIZE arm_env - 1) = 0 \<and>
              gap_fits arm_env full_below_mm ?fb 0x10000"
    by (simp add: run_search arm_env_def full_below_mm_def)
  then have some: "\<exists>b. b AND (PAGE_SIZE arm_env - 1) = 0 \<and> gap_fits arm_env full_below_mm ?fb b"
    by blast
  note t0 = topdown_fallback [OF mn nf len h0]
  note t1 = topdown_fallback [OF mn nf len h1]
  from t0 failed
  have "arch_get_unmapped_area_topdown arm_env full_below_mm False 0 0x1000 0 0 =
          (vm_unmapped_area arm_env full_below_mm ?fb, [?td, ?fb])"
    by blast
  moreover from t1 failed
  have "arch_get_unmapped_area_topdown arm_env full_below_mm False 0x8000 0x1000 0 0 =
          (vm_unmapped_area arm_env full_below_mm ?fb, [?td, ?fb])"
    by blast
  moreover from t0 s none some
  have "mm_mmap_base full_below_mm
          \<le> fst (arch_get_unmapped_area_topdown arm_env full_below_mm False 0 0x1000 0 0)"
    unfolding Let_def by blast
  ultimately show ?thesis
    using td fb fits by simp
qed

section \<open>Physical address validation: theorems\<close>

text \<open>
  C9. \<open>devmem_is_allowed\<close> answers false (0) for a page inside an exclusive I/O-memory
  region, otherwise false for a page of RAM, otherwise true (1): exactly the pages that
  are neither exclusive nor RAM are allowed.
\<close>

theorem devmem_is_allowed_iff:
  "devmem_is_allowed k iomem_is_exclusive page_is_ram pfn =
     (if iomem_is_exclusive (push_bit (PAGE_SHIFT k) pfn) then 0
      else if page_is_ram pfn then 0 else 1)
   \<and> (devmem_is_allowed k iomem_is_exclusive page_is_ram pfn \<noteq> 0 \<longleftrightarrow>
        \<not> iomem_is_exclusive (push_bit (PAGE_SHIFT k) pfn) \<and> \<not> page_is_ram pfn)"
  by (simp add: devmem_is_allowed_def)

end
